theory Spec2Isabelle
  imports Main
begin

section \<open>The command-line script \<^verbatim>\<open>test3.py\<close>\<close>

text \<open>
  Python strings are modelled as \<^typ>\<open>string\<close>, read as the UTF-8 bytes of the text, and
  Python integers as \<^typ>\<open>int\<close> (unbounded). What the script prints is the list of the
  lines it hands to \<^verbatim>\<open>print\<close>, in order.
\<close>

subsection \<open>The builtins \<^verbatim>\<open>str\<close> and \<^verbatim>\<open>int\<close> on integers\<close>

definition digit_char :: "nat \<Rightarrow> char" where
  "digit_char d = char_of (48 + d)"

fun nat_str :: "nat \<Rightarrow> string" where
  "nat_str n = (if n < 10 then [digit_char n] else nat_str (n div 10) @ [digit_char (n mod 10)])"

declare nat_str.simps [simp del]

definition int_str :: "int \<Rightarrow> string" where
  "int_str i = (if i < 0 then CHR ''-'' # nat_str (nat (- i)) else nat_str (nat i))"

text \<open>
  \<^verbatim>\<open>int(s)\<close> on a string: white space is stripped at both ends, one sign may follow,
  then decimal digits, where single underscores may stand between two digits. Anything
  else is a \<^verbatim>\<open>ValueError\<close>, here \<^const>\<open>None\<close>. The model reads ASCII: digits and
  spaces of other scripts are left out, and so is the interpreter's optional limit on
  the length of a decimal conversion.
\<close>

definition py_isspace :: "char \<Rightarrow> bool" where
  "py_isspace c = ((of_char c :: nat) \<in> {9, 10, 11, 12, 13, 28, 29, 30, 31, 32})"

definition is_digit :: "char \<Rightarrow> bool" where
  "is_digit c = (48 \<le> (of_char c :: nat) \<and> (of_char c :: nat) \<le> 57)"

definition digit_val :: "char \<Rightarrow> int" where
  "digit_val c = int (of_char c) - 48"

fun int_body :: "int \<Rightarrow> string \<Rightarrow> int option" where
  "int_body acc [] = Some acc"
| "int_body acc (c # cs) =
     (if is_digit c then int_body (10 * acc + digit_val c) cs
      else if c = CHR ''_'' then
        (case cs of
           [] \<Rightarrow> None
         | d # ds \<Rightarrow> if is_digit d then int_body (10 * acc + digit_val d) ds else None)
      else None)"

definition int_unsigned :: "string \<Rightarrow> int option" where
  "int_unsigned s =
     (case s of
        [] \<Rightarrow> None
      | c # cs \<Rightarrow> if is_digit c then int_body (digit_val c) cs else None)"

definition py_strip :: "string \<Rightarrow> string" where
  "py_strip s = rev (dropWhile py_isspace (rev (dropWhile py_isspace s)))"

definition py_int :: "string \<Rightarrow> int option" where
  "py_int s =
     (case py_strip s of
        [] \<Rightarrow> None
      | c # cs \<Rightarrow>
          if c = CHR ''-'' then map_option uminus (int_unsigned cs)
          else if c = CHR ''+'' then int_unsigned cs
          else int_unsigned (c # cs))"

subsection \<open>The script\<close>

definition usage_msg :: string where
  "usage_msg = ''Usage: python3 test3.py -p <name> OR python3 test3.py add <a> <b>''"

definition integers_msg :: string where
  "integers_msg = ''Please provide two integers for addition.''"

definition greet :: "string \<Rightarrow> string list" where
  "greet name = [''Hello, '' @ name @ ''!'']"

definition add :: "int \<Rightarrow> int \<Rightarrow> string list" where
  "add a b = [int_str a @ '' + '' @ int_str b @ '' = '' @ int_str (a + b)]"

text \<open>
  The body under \<^verbatim>\<open>if __name__ == "__main__"\<close>, as a function of \<^verbatim>\<open>sys.argv\<close>
  (the script's name first). The \<^verbatim>\<open>try\<close> block converts both arguments before it
  calls \<^verbatim>\<open>add\<close>; a \<^verbatim>\<open>ValueError\<close> from either conversion goes to the handler.
\<close>

definition main :: "string list \<Rightarrow> string list" where
  "main argv =
     (if length argv > 1 then
        if argv ! 1 = ''-p'' \<and> length argv > 2 then greet (argv ! 2)
        else if argv ! 1 = ''add'' \<and> length argv > 3 then
          (case py_int (argv ! 2) of
             None \<Rightarrow> [integers_msg]
           | Some a \<Rightarrow>
               (case py_int (argv ! 3) of
                  None \<Rightarrow> [integers_msg]
                | Some b \<Rightarrow> add a b))
        else [usage_msg]
      else [usage_msg])"

section \<open>The VS Code tool wrappers \<^verbatim>\<open>toolstobe.py\<close>\<close>

subsection \<open>Decoded JSON values and the dynamic operations the module applies to them\<close>

text \<open>
  What \<^verbatim>\<open>response.json()\<close> returns: \<^verbatim>\<open>None\<close>, a boolean, an integer, a string, a list
  or a dictionary (its items in order, its keys distinct). Numbers with a fraction are
  left out of the model. The module reads these values with \<^verbatim>\<open>.get\<close>, \<^verbatim>\<open>len\<close>,
  comparisons, slices, iteration and string formatting; each operation is modelled on
  every kind of value, with the exception it raises where Python raises one.
\<close>

datatype json =
    JNull
  | JBool bool
  | JInt int
  | JStr string
  | JArr "json list"
  | JObj "(string \<times> json) list"

text \<open>
  The exceptions that reach the \<^verbatim>\<open>except\<close> clauses of the tools: the module's own
  \<^verbatim>\<open>VSCodeAvailabilityError\<close>, and every other \<^verbatim>\<open>Exception\<close>; each carries the text
  that \<^verbatim>\<open>str(e)\<close> gives.
\<close>

datatype exn = VSCodeAvailabilityError string | Exception string

definition ex_bind :: "exn + 'a \<Rightarrow> ('a \<Rightarrow> exn + 'b) \<Rightarrow> exn + 'b" where
  "ex_bind r f = (case r of Inl e \<Rightarrow> Inl e | Inr x \<Rightarrow> f x)"

fun type_name :: "json \<Rightarrow> string" where
  "type_name JNull = ''NoneType''"
| "type_name (JBool b) = ''bool''"
| "type_name (JInt i) = ''int''"
| "type_name (JStr s) = ''str''"
| "type_name (JArr xs) = ''list''"
| "type_name (JObj kvs) = ''dict''"

text \<open>A text between single quotes.\<close>

definition quoted :: "string \<Rightarrow> string" where
  "quoted s = CHR 0x27 # s @ [CHR 0x27]"

definition py_get :: "json \<Rightarrow> string \<Rightarrow> json \<Rightarrow> exn + json" where
  "py_get d k dflt =
     (case d of
        JObj kvs \<Rightarrow> Inr (case map_of kvs k of None \<Rightarrow> dflt | Some v \<Rightarrow> v)
      | _ \<Rightarrow> Inl (Exception (quoted (type_name d) @ '' object has no attribute '' @ quoted ''get'')))"

fun py_truthy :: "json \<Rightarrow> bool" where
  "py_truthy JNull = False"
| "py_truthy (JBool b) = b"
| "py_truthy (JInt i) = (i \<noteq> 0)"
| "py_truthy (JStr s) = (s \<noteq> [])"
| "py_truthy (JArr xs) = (xs \<noteq> [])"
| "py_truthy (JObj kvs) = (kvs \<noteq> [])"

text \<open>A Python string counts code points: a UTF-8 continuation byte starts none.\<close>

definition is_cont :: "char \<Rightarrow> bool" where
  "is_cont c = ((of_char c :: nat) div 64 = 2)"

function codepoints :: "string \<Rightarrow> string list" where
  "codepoints [] = []"
| "codepoints (c # cs) = (c # takeWhile is_cont cs) # codepoints (dropWhile is_cont cs)"
  by pat_completeness auto
termination
  by (relation "measure length") (auto simp: less_Suc_eq_le length_dropWhile_le)

definition py_len :: "json \<Rightarrow> exn + nat" where
  "py_len v =
     (case v of
        JStr s \<Rightarrow> Inr (length (codepoints s))
      | JArr xs \<Rightarrow> Inr (length xs)
      | JObj kvs \<Rightarrow> Inr (length kvs)
      | _ \<Rightarrow> Inl (Exception (''object of type '' @ quoted (type_name v) @ '' has no len()'')))"

definition py_iter :: "json \<Rightarrow> exn + json list" where
  "py_iter v =
     (case v of
        JStr s \<Rightarrow> Inr (map JStr (codepoints s))
      | JArr xs \<Rightarrow> Inr xs
      | JObj kvs \<Rightarrow> Inr (map (\<lambda>kv. JStr (fst kv)) kvs)
      | _ \<Rightarrow> Inl (Exception (quoted (type_name v) @ '' object is not iterable'')))"

text \<open>Booleans are integers in comparisons and arithmetic.\<close>

definition as_int :: "json \<Rightarrow> int option" where
  "as_int v = (case v of JInt i \<Rightarrow> Some i | JBool b \<Rightarrow> Some (if b then 1 else 0) | _ \<Rightarrow> None)"

definition py_eq_int :: "json \<Rightarrow> int \<Rightarrow> bool" where
  "py_eq_int v n = (as_int v = Some n)"

definition py_gt_int :: "json \<Rightarrow> int \<Rightarrow> exn + bool" where
  "py_gt_int v n =
     (case as_int v of
        Some i \<Rightarrow> Inr (i > n)
      | None \<Rightarrow> Inl (Exception (quoted ''>'' @ '' not supported between instances of '' @
                   quoted (type_name v) @ '' and '' @ quoted ''int'')))"

definition py_sub_int :: "json \<Rightarrow> int \<Rightarrow> exn + int" where
  "py_sub_int v n =
     (case as_int v of
        Some i \<Rightarrow> Inr (i - n)
      | None \<Rightarrow> Inl (Exception (''unsupported operand type(s) for -: '' @
                   quoted (type_name v) @ '' and '' @ quoted ''int'')))"

text \<open>
  \<^verbatim>\<open>v[:n]\<close>. A dictionary looks the slice up as a key, which is a \<^verbatim>\<open>KeyError\<close> whose
  text is the slice (Python 3.12 and later, where a slice can be hashed).
\<close>

definition py_slice_to :: "json \<Rightarrow> nat \<Rightarrow> exn + json" where
  "py_slice_to v n =
     (case v of
        JStr s \<Rightarrow> Inr (JStr (concat (take n (codepoints s))))
      | JArr xs \<Rightarrow> Inr (JArr (take n xs))
      | JObj kvs \<Rightarrow> Inl (Exception (''slice(None, '' @ nat_str n @ '', None)''))
      | _ \<Rightarrow> Inl (Exception (quoted (type_name v) @ '' object is not subscriptable'')))"

subsection \<open>String formatting\<close>

fun py_join :: "string \<Rightarrow> string list \<Rightarrow> string" where
  "py_join sep [] = []"
| "py_join sep [x] = x"
| "py_join sep (x # y # ys) = x @ sep @ py_join sep (y # ys)"

definition hex_digit :: "nat \<Rightarrow> char" where
  "hex_digit n = ''0123456789abcdef'' ! n"

text \<open>
  \<^verbatim>\<open>repr\<close> of a string: in single quotes, or in double quotes when the string holds a
  single quote and no double quote; the backslash and the chosen quote escaped, control
  characters written as escapes. Bytes past ASCII are kept as they are.
\<close>

definition repr_char :: "char \<Rightarrow> char \<Rightarrow> string" where
  "repr_char q c =
     (if c = q \<or> c = CHR 0x5C then [CHR 0x5C, c]
      else if c = CHR 0x09 then [CHR 0x5C, CHR ''t'']
      else if c = CHR 0x0A then [CHR 0x5C, CHR ''n'']
      else if c = CHR 0x0D then [CHR 0x5C, CHR ''r'']
      else if (of_char c :: nat) < 32 \<or> (of_char c :: nat) = 127 then
        [CHR 0x5C, CHR ''x'', hex_digit (of_char c div 16), hex_digit (of_char c mod 16)]
      else [c])"

definition repr_str :: "string \<Rightarrow> string" where
  "repr_str s =
     (let q = (if CHR 0x27 \<in> set s \<and> CHR 0x22 \<notin> set s then CHR 0x22 else CHR 0x27)
      in q # concat (map (repr_char q) s) @ [q])"

fun py_repr :: "json \<Rightarrow> string" where
  "py_repr JNull = ''None''"
| "py_repr (JBool b) = (if b then ''True'' else ''False'')"
| "py_repr (JInt i) = int_str i"
| "py_repr (JStr s) = repr_str s"
| "py_repr (JArr xs) = ''['' @ py_join '', '' (map py_repr xs) @ '']''"
| "py_repr (JObj kvs) =
     ''{'' @ py_join '', '' (map (\<lambda>kv. repr_str (fst kv) @ '': '' @ py_repr (snd kv)) kvs) @ ''}''"

text \<open>\<^verbatim>\<open>str(v)\<close>, which is what a replacement field \<^verbatim>\<open>{v}\<close> of an f-string writes.\<close>

definition py_str :: "json \<Rightarrow> string" where
  "py_str v = (case v of JStr s \<Rightarrow> s | _ \<Rightarrow> py_repr v)"

definition pad_left :: "nat \<Rightarrow> string \<Rightarrow> string" where
  "pad_left w s = replicate (w - length s) CHR '' '' @ s"

text \<open>
  A replacement field \<^verbatim>\<open>{v:<w>d}\<close>: an integer (or a boolean) in decimal, right-aligned
  in \<^verbatim>\<open>w\<close> columns; a \<^verbatim>\<open>ValueError\<close> for a string and a \<^verbatim>\<open>TypeError\<close> for the rest.
\<close>

definition py_format_d :: "nat \<Rightarrow> json \<Rightarrow> exn + string" where
  "py_format_d w v =
     (case v of
        JInt i \<Rightarrow> Inr (pad_left w (int_str i))
      | JBool b \<Rightarrow> Inr (pad_left w (if b then ''1'' else ''0''))
      | JStr s \<Rightarrow> Inl (Exception (''Unknown format code '' @ quoted ''d'' @ '' for object of type '' @ quoted ''str''))
      | _ \<Rightarrow> Inl (Exception (''unsupported format string passed to '' @ type_name v @ ''.__format__'')))"

definition py_lower :: "string \<Rightarrow> string" where
  "py_lower s = map (\<lambda>c. if 65 \<le> (of_char c :: nat) \<and> (of_char c :: nat) \<le> 90
                          then char_of ((of_char c :: nat) + 32) else c) s"

text \<open>\<^verbatim>\<open>name.split('.')[-1] if '.' in name else 'txt'\<close>\<close>

definition file_ext_of :: "string \<Rightarrow> string" where
  "file_ext_of name =
     (if CHR ''.'' \<in> set name then rev (takeWhile (\<lambda>c. c \<noteq> CHR ''.'') (rev name)) else ''txt'')"

subsection \<open>Calls to the outside, and the record of a run\<close>

text \<open>
  The module talks to five things outside itself: a child process (\<^verbatim>\<open>subprocess.run\<close>),
  the HTTP client (\<^verbatim>\<open>requests.get\<close>, \<^verbatim>\<open>requests.post\<close>), a TCP socket, the permission
  manager, and the Rich console. A run is modelled by its result together with the list
  of the calls it made, in order. What the outside answers is an argument, \<open>env\<close>: a run
  asks each question at most once, so answers that depend on the question alone lose
  nothing.
\<close>

datatype http_method = GET | POST

text \<open>
  A call of \<^verbatim>\<open>requests\<close>: the method, the URL, \<^verbatim>\<open>params=\<close>, \<^verbatim>\<open>json=\<close>, \<^verbatim>\<open>headers=\<close>
  (empty when the call passes none) and \<^verbatim>\<open>timeout=\<close> in seconds.
\<close>

datatype http_request =
  Request (meth: http_method) (url: string) (params: "(string \<times> json) list")
    (json_body: "json option") (headers: "(string \<times> string) list") (timeout: nat)

text \<open>
  A response: its status code, and what \<^verbatim>\<open>response.json()\<close> gives, a decoded value or
  the text of the exception it raises.
\<close>

datatype response = Response (status_code: int) (json_of: "string + json")

datatype http_outcome = Raises string | Responds response

datatype permission_type = FILE_OPERATIONS | FILE_WRITE

text \<open>
  What is printed: a \<^verbatim>\<open>Panel(body, title=..., border_style=...)\<close>, whose body is a value
  (markup text as a \<^const>\<open>JStr\<close>) or a \<^verbatim>\<open>Syntax(code, lexer, theme="monokai",
  line_numbers=True)\<close>; or a bare text.
\<close>

datatype renderable = Renderable json | Syntax json string

datatype printed = Panel renderable string string | Plain string

datatype event =
    SubprocessRun "string list" nat
  | HttpRequest http_request
  | SocketConnect string nat nat
  | GetPermission permission_type string
  | ConsolePrint printed

text \<open>
  The answers of the outside. \<open>subprocess_run\<close>: the return code of the child, or the text
  of the exception (command not found, timeout). \<open>requests_send\<close>: a response, or the
  exception of the client. \<open>connect_ex\<close>: the result of \<^verbatim>\<open>sock.connect_ex\<close>, or the
  exception of one of the socket calls. \<open>get_permission\<close>: the answer of
  \<^verbatim>\<open>permission_manager.get_permission\<close>, whose code is not part of these sources, or the
  exception it raises. \<open>syntax_fails\<close>: whether building and printing a \<^verbatim>\<open>Syntax\<close> of
  this code with this lexer raises. Printing a panel of a value or a text is taken
  to succeed.
\<close>

record env =
  subprocess_run :: "string list \<Rightarrow> string + int"
  requests_send :: "http_request \<Rightarrow> http_outcome"
  connect_ex :: "string \<Rightarrow> nat \<Rightarrow> string + int"
  get_permission :: "permission_type \<Rightarrow> string \<Rightarrow> string + bool"
  syntax_fails :: "json \<Rightarrow> string \<Rightarrow> bool"

type_synonym 'a io = "(exn + 'a) \<times> event list"

definition io_return :: "'a \<Rightarrow> 'a io" where
  "io_return x = (Inr x, [])"

definition io_raise :: "exn \<Rightarrow> 'a io" where
  "io_raise e = (Inl e, [])"

definition io_lift :: "exn + 'a \<Rightarrow> 'a io" where
  "io_lift r = (r, [])"

text \<open>Sequencing: an exception ends the run; the calls made so far stay on record.\<close>

definition io_bind :: "'a io \<Rightarrow> ('a \<Rightarrow> 'b io) \<Rightarrow> 'b io" where
  "io_bind m f =
     (case fst m of
        Inl e \<Rightarrow> (Inl e, snd m)
      | Inr x \<Rightarrow> (fst (f x), snd m @ snd (f x)))"

text \<open>\<^verbatim>\<open>try: m except ... as e: h e\<close>\<close>

definition io_catch :: "'a io \<Rightarrow> (exn \<Rightarrow> 'a io) \<Rightarrow> 'a io" where
  "io_catch m h =
     (case fst m of
        Inl e \<Rightarrow> (fst (h e), snd m @ snd (h e))
      | Inr x \<Rightarrow> m)"

definition str_result :: "string + 'a \<Rightarrow> exn + 'a" where
  "str_result r = (case r of Inl msg \<Rightarrow> Inl (Exception msg) | Inr x \<Rightarrow> Inr x)"

definition subprocess_call :: "env \<Rightarrow> string list \<Rightarrow> nat \<Rightarrow> int io" where
  "subprocess_call env argv t = (str_result (subprocess_run env argv), [SubprocessRun argv t])"

definition requests_call :: "env \<Rightarrow> http_request \<Rightarrow> response io" where
  "requests_call env req =
     (case requests_send env req of
        Raises msg \<Rightarrow> (Inl (Exception msg), [HttpRequest req])
      | Responds r \<Rightarrow> (Inr r, [HttpRequest req]))"

definition socket_call :: "env \<Rightarrow> string \<Rightarrow> nat \<Rightarrow> nat \<Rightarrow> int io" where
  "socket_call env host port t = (str_result (connect_ex env host port), [SocketConnect host port t])"

definition permission_call :: "env \<Rightarrow> permission_type \<Rightarrow> string \<Rightarrow> bool io" where
  "permission_call env ty what = (str_result (get_permission env ty what), [GetPermission ty what])"

definition console_print :: "printed \<Rightarrow> unit io" where
  "console_print p = (Inr (), [ConsolePrint p])"

definition response_json :: "response \<Rightarrow> json io" where
  "response_json r = io_lift (str_result (json_of r))"

subsection \<open>Configuration\<close>

definition VSCODE_HTTP_URL :: string where
  "VSCODE_HTTP_URL = ''http://localhost:8090''"

definition HEADERS :: "(string \<times> string) list" where
  "HEADERS =
     [(''User-Agent'', ''Nutaan-Agent/1.0''),
      (''Accept'', ''application/json''),
      (''Content-Type'', ''application/json'')]"

text \<open>
  The literals of the source that are not ASCII, by the UTF-8 bytes they have in the
  source file.
\<close>

definition cross_mark :: string where
  "cross_mark = [CHR 0xE2, CHR 0x80, CHR 0x9A, CHR 0xC3, CHR 0xB9, CHR 0xC3, CHR 0xA5]"

definition check_mark :: string where
  "check_mark = [CHR 0xE2, CHR 0x80, CHR 0x9A, CHR 0xC3, CHR 0xBA, CHR 0xC3, CHR 0x96]"

definition arrow_mark :: string where
  "arrow_mark = [CHR 0xE2, CHR 0x80, CHR 0x9A, CHR 0xC3, CHR 0x9C, CHR 0xC3, CHR 0xAD]"

definition page_mark :: string where
  "page_mark =
     [CHR 0xEF, CHR 0xA3, CHR 0xBF, CHR 0xC3, CHR 0xBC, CHR 0xC3, CHR 0xAC, CHR 0xC3, CHR 0x91]"

subsection \<open>The availability checks\<close>

definition check_code_command :: "env \<Rightarrow> bool io" where
  "check_code_command env =
     io_catch
       (io_bind (subprocess_call env [''code'', ''--version''] 5)
          (\<lambda>returncode. io_return (returncode = 0)))
       (\<lambda>e. io_return False)"

definition health_request :: http_request where
  "health_request = Request GET (VSCODE_HTTP_URL @ ''/health'') [] None [] 3"

definition check_vscode_api :: "env \<Rightarrow> bool io" where
  "check_vscode_api env =
     io_catch
       (io_bind (requests_call env health_request)
          (\<lambda>response. io_return (status_code response = 200)))
       (\<lambda>e. io_catch
          (io_bind (socket_call env ''localhost'' 8090 2)
             (\<lambda>result. io_return (result = 0)))
          (\<lambda>e. io_return False))"

definition check_vscode_availability :: "env \<Rightarrow> (bool \<times> string) io" where
  "check_vscode_availability env =
     io_bind (check_code_command env) (\<lambda>code_available.
     io_bind (check_vscode_api env) (\<lambda>api_available.
     io_return
       (if \<not> code_available \<and> \<not> api_available then
          (False, cross_mark @ '' VS Code command not found and API not accessible on localhost:8090'')
        else if \<not> code_available then
          (False, cross_mark @ '' VS Code command not found (install VS Code and ensure 'code' is in PATH)'')
        else if \<not> api_available then
          (False, cross_mark @ '' VS Code extension API not accessible on localhost:8090'')
        else (True, check_mark @ '' VS Code is available and connected''))))"

definition ensure_vscode_available :: "env \<Rightarrow> unit io" where
  "ensure_vscode_available env =
     io_bind (check_vscode_availability env) (\<lambda>r.
       if \<not> fst r then io_raise (VSCodeAvailabilityError (snd r)) else io_return ())"

definition display_rich_error :: "string \<Rightarrow> string io" where
  "display_rich_error error_msg =
     io_bind
       (console_print
          (Panel (Renderable (JStr (''[red]'' @ error_msg @ ''[/red]'')))
             ''[red]VS Code Error[/red]'' ''red''))
       (\<lambda>u. io_return error_msg)"

definition display_rich_success :: "string \<Rightarrow> string io" where
  "display_rich_success success_msg =
     io_bind
       (console_print
          (Panel (Renderable (JStr (''[green]'' @ success_msg @ ''[/green]'')))
             ''[green]VS Code Success[/green]'' ''green''))
       (\<lambda>u. io_return success_msg)"

text \<open>
  The two \<^verbatim>\<open>except\<close> clauses that close every tool but the health check:
  \<^verbatim>\<open>except VSCodeAvailabilityError as e: return display_rich_error(str(e))\<close> and
  \<^verbatim>\<open>except Exception as e: return display_rich_error(f"<prefix>{str(e)}")\<close>.
\<close>

definition except_clauses :: "string \<Rightarrow> exn \<Rightarrow> string io" where
  "except_clauses prefix e =
     (case e of
        VSCodeAvailabilityError msg \<Rightarrow> display_rich_error msg
      | Exception msg \<Rightarrow> display_rich_error (prefix @ msg))"

subsection \<open>The tools\<close>

text \<open>
  Each tool is modelled by the body of the decorated function. \<^verbatim>\<open>except Exception\<close>
  catches what the calls above raise; an interrupt of the interpreter is outside the
  model.
\<close>

paragraph \<open>\<^verbatim>\<open>vscode_get_context\<close>\<close>

definition context_request :: http_request where
  "context_request = Request GET (VSCODE_HTTP_URL @ ''/context'') [] None HEADERS 10"

definition context_info_of :: "json \<Rightarrow> exn + string" where
  "context_info_of context =
     ex_bind (py_get context ''activeFile'' (JStr ''None'')) (\<lambda>active_file.
     ex_bind (py_get context ''language'' (JStr ''Unknown'')) (\<lambda>language.
     ex_bind (py_get context ''workspace'' (JStr ''None'')) (\<lambda>workspace.
     ex_bind (py_get context ''selection'' (JObj [])) (\<lambda>selection.
     ex_bind (py_get selection ''text'' (JStr ''No selection'')) (\<lambda>text.
     ex_bind (py_get context ''openTabs'' (JArr [])) (\<lambda>open_tabs.
     ex_bind (py_len open_tabs) (\<lambda>n.
     Inr (''[bold cyan]VS Code Context:[/bold cyan]\<newline>[bold]Active File:[/bold] '' @ py_str active_file @
          ''\<newline>[bold]Language:[/bold] '' @ py_str language @
          ''\<newline>[bold]Workspace:[/bold] '' @ py_str workspace @
          ''\<newline>[bold]Selection:[/bold] '' @ py_str text @
          ''\<newline>[bold]Open Tabs:[/bold] '' @ nat_str n @ '' tabs''))))))))"

text \<open>The branch of status 200, from the decoded body on.\<close>

definition show_context :: "json \<Rightarrow> string io" where
  "show_context context =
     io_bind (io_lift (context_info_of context)) (\<lambda>context_info.
     io_bind (console_print
                (Panel (Renderable (JStr context_info)) ''[cyan]VS Code Context[/cyan]'' ''cyan''))
       (\<lambda>u. io_return context_info))"

definition vscode_get_context :: "env \<Rightarrow> string io" where
  "vscode_get_context env =
     io_catch
       (io_bind (ensure_vscode_available env) (\<lambda>u.
        io_bind (requests_call env context_request) (\<lambda>response.
        if status_code response = 200 then
          io_bind (response_json response) show_context
        else
          display_rich_error
            (''Error getting VS Code context: HTTP '' @ int_str (status_code response)))))
       (except_clauses ''Error getting VS Code context: '')"

paragraph \<open>\<^verbatim>\<open>vscode_get_selection\<close>\<close>

definition selection_request :: http_request where
  "selection_request = Request GET (VSCODE_HTTP_URL @ ''/selection-context'') [] None HEADERS 10"

definition selection_text_of :: "json \<Rightarrow> json \<Rightarrow> json \<Rightarrow> json \<Rightarrow> exn + string" where
  "selection_text_of file_info language context_info selection =
     ex_bind (py_get context_info ''totalLines'' (JStr ''Unknown'')) (\<lambda>total_lines.
     ex_bind (py_get selection ''startLine'' (JStr ''Unknown'')) (\<lambda>start_line.
     ex_bind (py_get selection ''endLine'' (JStr ''Unknown'')) (\<lambda>end_line.
     ex_bind (py_get selection ''startColumn'' (JStr ''Unknown'')) (\<lambda>start_column.
     ex_bind (py_get selection ''endColumn'' (JStr ''Unknown'')) (\<lambda>end_column.
     Inr (''[bold]File:[/bold] '' @ py_str file_info @
          ''\<newline>[bold]Language:[/bold] '' @ py_str language @
          ''\<newline>[bold]Total Lines:[/bold] '' @ py_str total_lines @
          ''\<newline>[bold]Selection Lines:[/bold] '' @ py_str start_line @ '' to '' @ py_str end_line @
          ''\<newline>[bold]Columns:[/bold] '' @ py_str start_column @ '' to '' @ py_str end_column))))))"

text \<open>\<^verbatim>\<open>language.lower()\<close>: only a string has the method.\<close>

definition lower_of :: "json \<Rightarrow> exn + string" where
  "lower_of v =
     (case v of
        JStr s \<Rightarrow> Inr (py_lower s)
      | _ \<Rightarrow> Inl (Exception (quoted (type_name v) @ '' object has no attribute '' @ quoted ''lower'')))"

text \<open>
  The inner \<^verbatim>\<open>try\<close> of the selected text: the highlighted panel, and on any exception
  the plain panel.
\<close>

definition show_selected :: "env \<Rightarrow> json \<Rightarrow> json \<Rightarrow> unit io" where
  "show_selected env selected_text language =
     io_catch
       (io_bind (io_lift (lower_of language)) (\<lambda>lexer.
          if syntax_fails env selected_text lexer then io_raise (Exception ''Syntax'')
          else console_print
                 (Panel (Syntax selected_text lexer) ''[green]Selected Code[/green]'' ''green'')))
       (\<lambda>e. console_print
               (Panel (Renderable selected_text) ''[green]Selected Text[/green]'' ''green''))"

text \<open>The loop over the context lines, which builds \<^verbatim>\<open>context_display\<close>.\<close>

fun context_lines :: "json list \<Rightarrow> string \<Rightarrow> exn + string" where
  "context_lines [] context_display = Inr context_display"
| "context_lines (line_info # rest) context_display =
     ex_bind (py_get line_info ''lineNumber'' (JInt 0)) (\<lambda>line_num.
     ex_bind (py_get line_info ''content'' (JStr '''')) (\<lambda>content.
     ex_bind (py_get line_info ''isSelected'' (JBool False)) (\<lambda>is_selected.
     ex_bind (py_format_d 3 line_num) (\<lambda>num.
     context_lines rest
       (context_display @
        (if py_truthy is_selected then
           ''[bold yellow]'' @ arrow_mark @ '' '' @ num @ '':[/bold yellow] '' @ py_str content @ ''\<newline>''
         else ''   '' @ num @ '': '' @ py_str content @ ''\<newline>''))))))"

definition show_context_lines :: "json \<Rightarrow> unit io" where
  "show_context_lines lines =
     (if py_truthy lines then
        io_bind (io_lift (py_iter lines)) (\<lambda>line_infos.
        io_bind (io_lift (context_lines line_infos [])) (\<lambda>context_display.
        console_print
          (Panel (Renderable (JStr context_display)) ''[blue]Context Lines[/blue]'' ''blue'')))
      else io_return ())"

text \<open>The branch of status 200, from the decoded body on.\<close>

definition show_selection :: "env \<Rightarrow> json \<Rightarrow> string io" where
  "show_selection env context =
     io_bind (io_lift (py_get context ''hasActiveEditor'' (JBool False))) (\<lambda>has_editor.
     if \<not> py_truthy has_editor then display_rich_error ''No active editor in VS Code''
     else
       io_bind (io_lift (py_get context ''selection'' (JObj []))) (\<lambda>selection.
       io_bind (io_lift (py_get context ''activeFile'' (JStr ''Unknown file''))) (\<lambda>file_info.
       io_bind (io_lift (py_get context ''language'' (JStr ''Unknown''))) (\<lambda>language.
       io_bind (io_lift (py_get context ''context'' (JObj []))) (\<lambda>context_info.
       io_bind (io_lift (selection_text_of file_info language context_info selection))
         (\<lambda>selection_text.
       io_bind (console_print
                  (Panel (Renderable (JStr selection_text))
                     ''[yellow]Selection Info[/yellow]'' ''yellow'')) (\<lambda>u.
       io_bind (io_lift (py_get selection ''text'' (JStr ''No selection''))) (\<lambda>selected_text.
       io_bind (if selected_text \<noteq> JStr ''No selection''
                then show_selected env selected_text language else io_return ()) (\<lambda>u.
       io_bind (io_lift (py_get context_info ''lines'' (JArr []))) (\<lambda>lines.
       io_bind (show_context_lines lines) (\<lambda>u.
       io_return ''VS Code selection context displayed above'')))))))))))"

definition vscode_get_selection :: "env \<Rightarrow> string io" where
  "vscode_get_selection env =
     io_catch
       (io_bind (ensure_vscode_available env) (\<lambda>u.
        io_bind (requests_call env selection_request) (\<lambda>response.
        if status_code response = 200 then
          io_bind (response_json response) (show_selection env)
        else
          display_rich_error
            (''Error getting selection context: HTTP '' @ int_str (status_code response)))))
       (except_clauses ''Error getting selection context: '')"

paragraph \<open>\<^verbatim>\<open>vscode_list_files\<close>\<close>

definition files_request :: "string \<Rightarrow> http_request" where
  "files_request pattern =
     Request GET (VSCODE_HTTP_URL @ ''/workspace/files'') [(''pattern'', JStr pattern)] None HEADERS 10"

text \<open>
  The files to show and the note that follows them: the first 50 and a note when
  \<^verbatim>\<open>total > 50\<close>, all of them and no note otherwise.
\<close>

definition files_shown :: "json \<Rightarrow> json \<Rightarrow> exn + json \<times> string" where
  "files_shown files total_found =
     ex_bind (py_gt_int total_found 50) (\<lambda>more.
     if more then
       ex_bind (py_slice_to files 50) (\<lambda>files_display.
       ex_bind (py_sub_int total_found 50) (\<lambda>rest.
       Inr (files_display, ''\<newline>[dim]... and '' @ int_str rest @ '' more files[/dim]'')))
     else Inr (files, ''''))"

text \<open>\<^verbatim>\<open>[f"{i+1:2d}. {file}" for i, file in enumerate(files_display)]\<close>, from index \<open>i\<close> on.\<close>

fun numbered :: "nat \<Rightarrow> json list \<Rightarrow> string list" where
  "numbered i [] = []"
| "numbered i (file # rest) =
     (pad_left 2 (nat_str (i + 1)) @ ''. '' @ py_str file) # numbered (i + 1) rest"

definition files_info_of :: "string \<Rightarrow> json \<Rightarrow> json \<Rightarrow> exn + string" where
  "files_info_of pattern files total_found =
     ex_bind (files_shown files total_found) (\<lambda>shown.
     ex_bind (py_iter (fst shown)) (\<lambda>entries.
     Inr (''[bold]Pattern:[/bold] '' @ pattern @ ''\<newline>[bold]Total Found:[/bold] '' @ py_str total_found @
          ''\<newline>\<newline>'' @ py_join ''\<newline>'' (numbered 0 entries) @ snd shown)))"

text \<open>The branch of status 200, from the decoded body on.\<close>

definition show_files :: "string \<Rightarrow> json \<Rightarrow> string io" where
  "show_files pattern data =
     io_bind (io_lift (py_get data ''files'' (JArr []))) (\<lambda>files.
     io_bind (io_lift (py_get data ''total'' (JInt 0))) (\<lambda>total_found.
     if py_eq_int total_found 0 then
       display_rich_error (''No files found matching pattern '' @ quoted pattern)
     else
       io_bind (io_lift (files_info_of pattern files total_found)) (\<lambda>files_info.
       io_bind (console_print
                  (Panel (Renderable (JStr files_info)) ''[cyan]Workspace Files[/cyan]'' ''cyan''))
         (\<lambda>u.
       io_return (''Found '' @ py_str total_found @ '' files matching pattern '' @ quoted pattern @
                  '' (displayed in panel above)'')))))"

definition vscode_list_files :: "env \<Rightarrow> string \<Rightarrow> string io" where
  "vscode_list_files env pattern =
     io_catch
       (io_bind (ensure_vscode_available env) (\<lambda>u.
        io_bind (requests_call env (files_request pattern)) (\<lambda>response.
        if status_code response = 200 then
          io_bind (response_json response) (show_files pattern)
        else
          display_rich_error
            (''Error listing workspace files: HTTP '' @ int_str (status_code response)))))
       (except_clauses ''Error listing workspace files: '')"

paragraph \<open>\<^verbatim>\<open>vscode_read_file\<close>\<close>

definition read_request :: "string \<Rightarrow> int \<Rightarrow> int option \<Rightarrow> http_request" where
  "read_request file_path start_line end_line =
     Request GET (VSCODE_HTTP_URL @ ''/file/read'')
       ([(''path'', JStr file_path), (''startLine'', JInt start_line)] @
        (case end_line of None \<Rightarrow> [] | Some n \<Rightarrow> [(''endLine'', JInt n)]))
       None HEADERS 10"

text \<open>
  The \<^verbatim>\<open>try\<close> that shows code: the highlighted panel, and on any exception the plain
  panel under the same title.
\<close>

definition show_code :: "env \<Rightarrow> json \<Rightarrow> string \<Rightarrow> string \<Rightarrow> string \<Rightarrow> unit io" where
  "show_code env code lexer title border_style =
     io_catch
       (if syntax_fails env code lexer then io_raise (Exception ''Syntax'')
        else console_print (Panel (Syntax code lexer) title border_style))
       (\<lambda>e. console_print (Panel (Renderable code) title border_style))"

text \<open>The branch of status 200, from the decoded body on.\<close>

definition show_content :: "env \<Rightarrow> string \<Rightarrow> json \<Rightarrow> string io" where
  "show_content env file_path data =
     io_bind (io_lift (py_get data ''content'' (JStr ''No content''))) (\<lambda>content.
     io_bind (show_code env content (file_ext_of file_path)
                (''[green]'' @ file_path @ ''[/green]'') ''green'') (\<lambda>u.
     io_return (''File content for '' @ file_path @ '' displayed above'')))"

definition vscode_read_file :: "env \<Rightarrow> string \<Rightarrow> int \<Rightarrow> int option \<Rightarrow> string io" where
  "vscode_read_file env file_path start_line end_line =
     io_catch
       (io_bind (ensure_vscode_available env) (\<lambda>u.
        io_bind (permission_call env FILE_OPERATIONS (''Read file: '' @ file_path)) (\<lambda>granted.
        if \<not> granted then display_rich_error ''Permission denied for file read operation''
        else
          io_bind (requests_call env (read_request file_path start_line end_line)) (\<lambda>response.
          if status_code response = 200 then
            io_bind (response_json response) (show_content env file_path)
          else
            display_rich_error
              (''Error reading file '' @ file_path @ '': HTTP '' @ int_str (status_code response))))))
       (except_clauses (''Error reading file '' @ file_path @ '': ''))"

paragraph \<open>\<^verbatim>\<open>vscode_create_file\<close>\<close>

definition preview_request :: "string \<Rightarrow> string \<Rightarrow> http_request" where
  "preview_request filename content =
     Request GET (VSCODE_HTTP_URL @ ''/preview'')
       [(''title'', JStr (page_mark @ '' New file: '' @ filename)),
        (''filename'', JStr filename),
        (''content'', JStr content)]
       None HEADERS 10"

definition create_request :: "string \<Rightarrow> string \<Rightarrow> http_request" where
  "create_request filename content =
     Request POST (VSCODE_HTTP_URL @ ''/file/create'') []
       (Some (JObj [(''path'', JStr filename), (''content'', JStr content)])) HEADERS 10"

text \<open>\<^verbatim>\<open>try: requests.get(...) except: pass\<close>: the response is not looked at.\<close>

definition optional_get :: "env \<Rightarrow> http_request \<Rightarrow> unit io" where
  "optional_get env req =
     io_catch (io_bind (requests_call env req) (\<lambda>response. io_return ())) (\<lambda>e. io_return ())"

text \<open>
  The branch of any other status, from the decoded body on:
  \<^verbatim>\<open>display_rich_error(f"<prefix>{data.get('error', 'Unknown error')}")\<close>.
\<close>

definition show_refusal :: "string \<Rightarrow> json \<Rightarrow> string io" where
  "show_refusal prefix data =
     io_bind (io_lift (py_get data ''error'' (JStr ''Unknown error''))) (\<lambda>err.
     display_rich_error (prefix @ py_str err))"

definition vscode_create_file :: "env \<Rightarrow> string \<Rightarrow> string \<Rightarrow> string io" where
  "vscode_create_file env filename content =
     io_catch
       (io_bind (ensure_vscode_available env) (\<lambda>u.
        io_bind (permission_call env FILE_WRITE (''Create file: '' @ filename)) (\<lambda>granted.
        if \<not> granted then display_rich_error ''Permission denied for file creation''
        else
          io_bind (show_code env (JStr content) (file_ext_of filename)
                     (''[yellow]Preview: '' @ filename @ ''[/yellow]'') ''yellow'') (\<lambda>u.
          io_bind (optional_get env (preview_request filename content)) (\<lambda>u.
          io_bind (requests_call env (create_request filename content)) (\<lambda>response.
          if status_code response = 200 then
            display_rich_success (''Successfully created file: '' @ filename)
          else
            io_bind (response_json response)
              (show_refusal (''Error creating file '' @ filename @ '': ''))))))))
       (except_clauses (''Error creating file '' @ filename @ '': ''))"

paragraph \<open>\<^verbatim>\<open>vscode_edit_file\<close>\<close>

definition diff_request :: "string \<Rightarrow> string \<Rightarrow> string \<Rightarrow> http_request" where
  "diff_request filename old_text new_text =
     Request GET (VSCODE_HTTP_URL @ ''/diff'')
       [(''left'', JStr (filename @ '' (original)'')),
        (''right'', JStr (filename @ '' (proposed)'')),
        (''title'', JStr (''Edit file: '' @ filename)),
        (''leftContent'', JStr old_text),
        (''rightContent'', JStr new_text)]
       None HEADERS 10"

definition edit_request :: "string \<Rightarrow> string \<Rightarrow> string \<Rightarrow> http_request" where
  "edit_request filename old_text new_text =
     Request POST (VSCODE_HTTP_URL @ ''/file/edit'') []
       (Some (JObj [(''path'', JStr filename),
                    (''oldContent'', JStr old_text),
                    (''newContent'', JStr new_text)]))
       HEADERS 10"

definition vscode_edit_file :: "env \<Rightarrow> string \<Rightarrow> string \<Rightarrow> string \<Rightarrow> string io" where
  "vscode_edit_file env filename old_text new_text =
     io_catch
       (io_bind (ensure_vscode_available env) (\<lambda>u.
        io_bind (permission_call env FILE_WRITE (''Edit file: '' @ filename)) (\<lambda>granted.
        if \<not> granted then display_rich_error ''Permission denied for file edit operation''
        else
          io_bind (console_print
                     (Panel (Renderable (JStr
                        (''[bold]File:[/bold] '' @ filename @
                         ''\<newline>[bold red]- Old text:[/bold red]\<newline>'' @ old_text @
                         ''\<newline>\<newline>[bold green]+ New text:[/bold green]\<newline>'' @ new_text)))
                        ''[yellow]Proposed Changes[/yellow]'' ''yellow'')) (\<lambda>u.
          io_bind (optional_get env (diff_request filename old_text new_text)) (\<lambda>u.
          io_bind (requests_call env (edit_request filename old_text new_text)) (\<lambda>response.
          if status_code response = 200 then
            display_rich_success (''Successfully edited file: '' @ filename)
          else
            io_bind (response_json response)
              (show_refusal (''Error editing file '' @ filename @ '': ''))))))))
       (except_clauses (''Error editing file '' @ filename @ '': ''))"

paragraph \<open>\<^verbatim>\<open>vscode_health_check\<close>\<close>

definition status_info_of :: "bool \<Rightarrow> bool \<Rightarrow> string" where
  "status_info_of code_available api_available =
     ''[bold cyan]VS Code Health Check:[/bold cyan]\<newline>\<newline>[bold]Code Command:[/bold] '' @
     (if code_available then check_mark @ '' Available'' else cross_mark @ '' Not found'') @
     ''\<newline>[bold]Extension API (localhost:8090):[/bold] '' @
     (if api_available then check_mark @ '' Connected'' else cross_mark @ '' Not accessible'') @
     ''\<newline>[bold]Overall Status:[/bold] '' @
     (if code_available \<and> api_available then check_mark @ '' Ready'' else cross_mark @ '' Not ready'')"

definition help_text_of :: "bool \<Rightarrow> bool \<Rightarrow> string" where
  "help_text_of code_available api_available =
     ''\<newline>[dim]To use VS Code tools:[/dim]\<newline>'' @
     (if \<not> code_available then ''- Install VS Code and ensure 'code' command is in PATH\<newline>'' else '''') @
     (if \<not> api_available then ''- Start VS Code extension API on localhost:8090\<newline>'' else '''')"

definition vscode_health_check :: "env \<Rightarrow> string io" where
  "vscode_health_check env =
     io_bind (check_code_command env) (\<lambda>code_available.
     io_bind (check_vscode_api env) (\<lambda>api_available.
     if code_available \<and> api_available then
       io_bind (console_print
                  (Panel (Renderable (JStr (status_info_of code_available api_available)))
                     ''[green]VS Code Health[/green]'' ''green'')) (\<lambda>u.
       io_return ''VS Code is available and ready for use'')
     else
       io_bind (console_print
                  (Panel (Renderable (JStr (status_info_of code_available api_available)))
                     ''[red]VS Code Health[/red]'' ''red'')) (\<lambda>u.
       io_bind (console_print (Plain (help_text_of code_available api_available))) (\<lambda>u.
       io_return ''VS Code is not available - see requirements above''))))"

paragraph \<open>\<^verbatim>\<open>VSCODE_TOOLS\<close>\<close>

text \<open>A call of one of the seven exported tools, with its arguments.\<close>

datatype tool_call =
    HealthCheck
  | GetContext
  | GetSelection
  | ListFiles string
  | ReadFile string int "int option"
  | CreateFile string string
  | EditFile string string string

fun run_tool :: "env \<Rightarrow> tool_call \<Rightarrow> string io" where
  "run_tool env HealthCheck = vscode_health_check env"
| "run_tool env GetContext = vscode_get_context env"
| "run_tool env GetSelection = vscode_get_selection env"
| "run_tool env (ListFiles pattern) = vscode_list_files env pattern"
| "run_tool env (ReadFile file_path start_line end_line) =
     vscode_read_file env file_path start_line end_line"
| "run_tool env (CreateFile filename content) = vscode_create_file env filename content"
| "run_tool env (EditFile filename old_text new_text) =
     vscode_edit_file env filename old_text new_text"

section \<open>Vocabulary of the properties\<close>

text \<open>
  The answers of the outside that decide a run, read off \<open>env\<close>: whether the \<^verbatim>\<open>code\<close>
  command runs and exits with 0, and whether the service answers the health probe
  with 200 or, when the probe raises, the port accepts a connection.
\<close>

definition code_available :: "env \<Rightarrow> bool" where
  "code_available env = (subprocess_run env [''code'', ''--version''] = Inr 0)"

definition api_available :: "env \<Rightarrow> bool" where
  "api_available env =
     (case requests_send env health_request of
        Responds r \<Rightarrow> status_code r = 200
      | Raises msg \<Rightarrow> connect_ex env ''localhost'' 8090 = Inr 0)"

definition available :: "env \<Rightarrow> bool" where
  "available env = (code_available env \<and> api_available env)"

text \<open>The calls of the availability probe, in order.\<close>

definition probe_calls :: "env \<Rightarrow> event list" where
  "probe_calls env =
     [SubprocessRun [''code'', ''--version''] 5, HttpRequest health_request] @
     (case requests_send env health_request of
        Responds r \<Rightarrow> []
      | Raises msg \<Rightarrow> [SocketConnect ''localhost'' 8090 2])"

definition unavailable_msg :: "env \<Rightarrow> string" where
  "unavailable_msg env =
     (if \<not> code_available env \<and> \<not> api_available env then
        cross_mark @ '' VS Code command not found and API not accessible on localhost:8090''
      else if \<not> code_available env then
        cross_mark @ '' VS Code command not found (install VS Code and ensure 'code' is in PATH)''
      else cross_mark @ '' VS Code extension API not accessible on localhost:8090'')"

text \<open>The panel that \<^const>\<open>display_rich_error\<close> prints for a message.\<close>

definition error_panel :: "string \<Rightarrow> event" where
  "error_panel msg =
     ConsolePrint
       (Panel (Renderable (JStr (''[red]'' @ msg @ ''[/red]''))) ''[red]VS Code Error[/red]'' ''red'')"

definition success_panel :: "string \<Rightarrow> event" where
  "success_panel msg =
     ConsolePrint
       (Panel (Renderable (JStr (''[green]'' @ msg @ ''[/green]'')))
          ''[green]VS Code Success[/green]'' ''green'')"

fun is_console :: "event \<Rightarrow> bool" where
  "is_console (ConsolePrint p) = True"
| "is_console e = False"

text \<open>The calls of a run that leave the process: everything but console output.\<close>

definition effects :: "'a io \<Rightarrow> event list" where
  "effects m = filter (\<lambda>e. \<not> is_console e) (snd m)"

text \<open>A run continued after the calls \<open>t\<close> were made.\<close>

definition after :: "event list \<Rightarrow> 'a io \<Rightarrow> 'a io" where
  "after t m = (fst m, t @ snd m)"

text \<open>A block under the two \<^verbatim>\<open>except\<close> clauses of a tool.\<close>

definition handled :: "string \<Rightarrow> string io \<Rightarrow> string io" where
  "handled prefix m = io_catch m (except_clauses prefix)"

text \<open>The run of a tool that finds VS Code unavailable.\<close>

definition unavailable_run :: "env \<Rightarrow> string io" where
  "unavailable_run env =
     (Inr (unavailable_msg env), probe_calls env @ [error_panel (unavailable_msg env)])"

text \<open>A run that ends by showing the error message it returns.\<close>

definition error_run :: "event list \<Rightarrow> string \<Rightarrow> string io" where
  "error_run t msg = (Inr msg, t @ [error_panel msg])"

text \<open>What \<^const>\<open>show_code\<close> prints: the highlighted panel, or the plain one.\<close>

definition code_panel :: "env \<Rightarrow> json \<Rightarrow> string \<Rightarrow> string \<Rightarrow> string \<Rightarrow> event" where
  "code_panel env code lexer title border_style =
     ConsolePrint
       (Panel (if syntax_fails env code lexer then Renderable code else Syntax code lexer)
          title border_style)"

text \<open>The text of an exception as the \<^verbatim>\<open>except\<close> clauses of a tool report it.\<close>

definition exn_text :: "string \<Rightarrow> exn \<Rightarrow> string" where
  "exn_text prefix e =
     (case e of VSCodeAvailabilityError msg \<Rightarrow> msg | Exception msg \<Rightarrow> prefix @ msg)"

text \<open>
  The calls of a permitted creation, and of a permitted edit, up to the POST: the probe,
  the permission, the preview on the console, the optional GET, the POST.
\<close>

definition create_calls :: "env \<Rightarrow> string \<Rightarrow> string \<Rightarrow> event list" where
  "create_calls env filename content =
     probe_calls env @
     [GetPermission FILE_WRITE (''Create file: '' @ filename),
      code_panel env (JStr content) (file_ext_of filename)
        (''[yellow]Preview: '' @ filename @ ''[/yellow]'') ''yellow'',
      HttpRequest (preview_request filename content),
      HttpRequest (create_request filename content)]"

definition edit_calls :: "env \<Rightarrow> string \<Rightarrow> string \<Rightarrow> string \<Rightarrow> event list" where
  "edit_calls env filename old_text new_text =
     probe_calls env @
     [GetPermission FILE_WRITE (''Edit file: '' @ filename),
      ConsolePrint
        (Panel (Renderable (JStr
           (''[bold]File:[/bold] '' @ filename @
            ''\<newline>[bold red]- Old text:[/bold red]\<newline>'' @ old_text @
            ''\<newline>\<newline>[bold green]+ New text:[/bold green]\<newline>'' @ new_text)))
           ''[yellow]Proposed Changes[/yellow]'' ''yellow''),
      HttpRequest (diff_request filename old_text new_text),
      HttpRequest (edit_request filename old_text new_text)]"

text \<open>What \<^const>\<open>show_selected\<close> prints.\<close>

definition selected_panel :: "env \<Rightarrow> json \<Rightarrow> json \<Rightarrow> event" where
  "selected_panel env selected_text language =
     (case lower_of language of
        Inl e \<Rightarrow>
          ConsolePrint
            (Panel (Renderable selected_text) ''[green]Selected Text[/green]'' ''green'')
      | Inr lexer \<Rightarrow>
          if syntax_fails env selected_text lexer then
            ConsolePrint
              (Panel (Renderable selected_text) ''[green]Selected Text[/green]'' ''green'')
          else
            ConsolePrint
              (Panel (Syntax selected_text lexer) ''[green]Selected Code[/green]'' ''green''))"







fun is_error_panel :: "event \<Rightarrow> bool" where
  "is_error_panel (ConsolePrint (Panel body title border_style)) =
     (title = ''[red]VS Code Error[/red]'')"
| "is_error_panel e = False"


fun optional_request :: "tool_call \<Rightarrow> http_request option" where
  "optional_request (CreateFile filename content) = Some (preview_request filename content)"
| "optional_request (EditFile filename old_text new_text) =
     Some (diff_request filename old_text new_text)"
| "optional_request call = None"

fun main_request :: "tool_call \<Rightarrow> http_request option" where
  "main_request HealthCheck = None"
| "main_request GetContext = Some context_request"
| "main_request GetSelection = Some selection_request"
| "main_request (ListFiles pattern) = Some (files_request pattern)"
| "main_request (ReadFile file_path start_line end_line) =
     Some (read_request file_path start_line end_line)"
| "main_request (CreateFile filename content) = Some (create_request filename content)"
| "main_request (EditFile filename old_text new_text) =
     Some (edit_request filename old_text new_text)"





definition returns_success :: "tool_call \<Rightarrow> string io \<Rightarrow> bool" where
  "returns_success call run =
     (case fst run of
        Inl e \<Rightarrow> False
      | Inr s \<Rightarrow>
          if call = HealthCheck then s = ''VS Code is available and ready for use''
          else \<not> list_ex is_error_panel (snd run))"



text \<open>The paths of the service that the specification lists.\<close>

definition endpoints :: "string list" where
  "endpoints =
     [''/health'', ''/context'', ''/selection-context'', ''/workspace/files'', ''/file/read'',
      ''/file/create'', ''/file/edit'', ''/preview'', ''/diff'']"

text \<open>The timeout, in seconds, that a call to the outside is given.\<close>

fun call_timeout :: "event \<Rightarrow> nat option" where
  "call_timeout (SubprocessRun argv t) = Some t"
| "call_timeout (HttpRequest r) = Some (timeout r)"
| "call_timeout (SocketConnect host port t) = Some t"
| "call_timeout e = None"

subsection \<open>Sample answers of the outside\<close>

text \<open>
  Everything works: the command exits with 0, every request is answered with status 200
  and the body \<open>j\<close>, the port accepts, permission is granted, highlighting works.
\<close>

definition env_up :: "json \<Rightarrow> env" where
  "env_up j =
     \<lparr>subprocess_run = (\<lambda>argv. Inr 0),
      requests_send = (\<lambda>req. Responds (Response 200 (Inr j))),
      connect_ex = (\<lambda>host port. Inr 0),
      get_permission = (\<lambda>ty what. Inr True),
      syntax_fails = (\<lambda>code lexer. False)\<rparr>"

text \<open>Nothing is there: no command, every request refused, the port closed.\<close>

definition env_down :: env where
  "env_down =
     \<lparr>subprocess_run = (\<lambda>argv. Inl ''No such file or directory''),
      requests_send = (\<lambda>req. Raises ''Connection refused''),
      connect_ex = (\<lambda>host port. Inr 111),
      get_permission = (\<lambda>ty what. Inr True),
      syntax_fails = (\<lambda>code lexer. False)\<rparr>"



section \<open>Sequencing and the availability probe\<close>

lemma io_bind_Inr: "io_bind (Inr x, t) f = (fst (f x), t @ snd (f x))"
  by (simp add: io_bind_def)

lemma io_bind_Inl: "io_bind (Inl e, t) f = (Inl e, t)"
  by (simp add: io_bind_def)

lemma io_catch_Inr: "io_catch (Inr x, t) h = (Inr x, t)"
  by (simp add: io_catch_def)

lemma io_catch_Inl: "io_catch (Inl e, t) h = (fst (h e), t @ snd (h e))"
  by (simp add: io_catch_def)

lemma display_rich_error_eq: "display_rich_error msg = (Inr msg, [error_panel msg])"
  by (simp add: display_rich_error_def console_print_def io_return_def error_panel_def io_bind_def)

lemma display_rich_success_eq: "display_rich_success msg = (Inr msg, [success_panel msg])"
  by (simp add: display_rich_success_def console_print_def io_return_def success_panel_def
        io_bind_def)

lemma except_clauses_eq:
  "except_clauses prefix e =
     (case e of
        VSCodeAvailabilityError msg \<Rightarrow> (Inr msg, [error_panel msg])
      | Exception msg \<Rightarrow> (Inr (prefix @ msg), [error_panel (prefix @ msg)]))"
  by (simp add: except_clauses_def display_rich_error_eq split: exn.splits)

lemma check_code_command_eq:
  "check_code_command env = (Inr (code_available env), [SubprocessRun [''code'', ''--version''] 5])"
  by (cases "subprocess_run env [''code'', ''--version'']")
     (simp_all add: check_code_command_def subprocess_call_def str_result_def io_return_def
        code_available_def io_bind_def io_catch_def)

lemma check_vscode_api_eq:
  "check_vscode_api env =
     (Inr (api_available env),
      HttpRequest health_request #
      (case requests_send env health_request of
         Responds r \<Rightarrow> []
       | Raises msg \<Rightarrow> [SocketConnect ''localhost'' 8090 2]))"
proof (cases "requests_send env health_request")
  case (Raises msg)
  then show ?thesis
    by (cases "connect_ex env ''localhost'' 8090")
       (simp_all add: check_vscode_api_def requests_call_def socket_call_def str_result_def
          io_return_def api_available_def io_bind_def io_catch_def)
next
  case (Responds r)
  then show ?thesis
    by (simp add: check_vscode_api_def requests_call_def io_return_def api_available_def
          io_bind_def io_catch_def)
qed

lemma check_vscode_availability_eq:
  "check_vscode_availability env =
     (Inr (if available env then (True, check_mark @ '' VS Code is available and connected'')
           else (False, unavailable_msg env)),
      probe_calls env)"
  by (simp add: check_vscode_availability_def check_code_command_eq check_vscode_api_eq
        io_return_def available_def unavailable_msg_def probe_calls_def io_bind_def)

lemma ensure_vscode_available_eq:
  "ensure_vscode_available env =
     (if available env then Inr () else Inl (VSCodeAvailabilityError (unavailable_msg env)),
      probe_calls env)"
  by (simp add: ensure_vscode_available_def check_vscode_availability_eq io_raise_def io_return_def
        io_bind_def)

lemma after_pair [simp]: "after t (a, s) = (a, t @ s)"
  by (simp add: after_def)

lemma fst_after [simp]: "fst (after t m) = fst m"
  by (simp add: after_def)

lemma snd_after [simp]: "snd (after t m) = t @ snd m"
  by (simp add: after_def)

lemma after_after [simp]: "after t (after s m) = after (t @ s) m"
  by (simp add: after_def)

lemma after_Nil [simp]: "after [] m = m"
  by (simp add: after_def)

lemma bind_Inr: "io_bind (Inr x, t) f = after t (f x)"
  by (simp add: io_bind_def after_def)

lemma bind_Inl: "io_bind (Inl e, t) f = (Inl e, t)"
  by (simp add: io_bind_def)

lemma bind_after: "io_bind (after t m) f = after t (io_bind m f)"
  by (simp add: io_bind_def after_def split: sum.splits)

lemma catch_after: "io_catch (after t m) h = after t (io_catch m h)"
  by (simp add: io_catch_def after_def split: sum.splits)

lemma catch_Inl: "io_catch (Inl e, t) h = after t (h e)"
  by (simp add: io_catch_def after_def)

lemma catch_Inr: "io_catch (Inr x, t) h = (Inr x, t)"
  by (simp add: io_catch_def)

lemmas exec = bind_Inr bind_Inl bind_after catch_after catch_Inl catch_Inr

lemma response_json_eq: "response_json r = (str_result (json_of r), [])"
  by (simp add: response_json_def io_lift_def)

lemma fst_io_bind: "fst (io_bind m f) = (case fst m of Inl e \<Rightarrow> Inl e | Inr x \<Rightarrow> fst (f x))"
  by (simp add: io_bind_def split: sum.splits)

lemma snd_io_bind:
  "snd (io_bind m f) = snd m @ (case fst m of Inl e \<Rightarrow> [] | Inr x \<Rightarrow> snd (f x))"
  by (simp add: io_bind_def split: sum.splits)

lemma fst_io_catch: "fst (io_catch m h) = (case fst m of Inl e \<Rightarrow> fst (h e) | Inr x \<Rightarrow> Inr x)"
  by (simp add: io_catch_def split: sum.splits)

lemma snd_io_catch:
  "snd (io_catch m h) = snd m @ (case fst m of Inl e \<Rightarrow> snd (h e) | Inr x \<Rightarrow> [])"
  by (simp add: io_catch_def split: sum.splits)

text \<open>
  Whatever a block does, under the \<^verbatim>\<open>except\<close> clauses it returns a string; when the block
  raised, the string is the text of the exception, shown in an error panel last.
\<close>

lemma handled_eq:
  "handled prefix m =
     (case fst m of
        Inl e \<Rightarrow> error_run (snd m) (exn_text prefix e)
      | Inr s \<Rightarrow> m)"
  by (cases m)
     (simp add: handled_def io_catch_def except_clauses_eq error_run_def exn_text_def
        split: sum.splits exn.splits)

lemma optional_get_eq: "optional_get env req = (Inr (), [HttpRequest req])"
  by (simp add: optional_get_def requests_call_def io_return_def exec split: http_outcome.splits)

lemma show_code_eq:
  "show_code env code lexer title border_style =
     (Inr (), [code_panel env code lexer title border_style])"
  by (simp add: show_code_def io_raise_def console_print_def exec code_panel_def)

section \<open>Each tool, case by case\<close>

text \<open>
  The run of each tool as a function of the answers it gets: which calls it makes and
  what it returns, with the display of a decoded body left as a block.
\<close>

lemma vscode_health_check_eq:
  "vscode_health_check env =
     (if available env then
        (Inr ''VS Code is available and ready for use'',
         probe_calls env @
         [ConsolePrint (Panel (Renderable (JStr (status_info_of True True)))
            ''[green]VS Code Health[/green]'' ''green'')])
      else
        (Inr ''VS Code is not available - see requirements above'',
         probe_calls env @
         [ConsolePrint (Panel (Renderable (JStr
             (status_info_of (code_available env) (api_available env))))
            ''[red]VS Code Health[/red]'' ''red''),
          ConsolePrint (Plain (help_text_of (code_available env) (api_available env)))]))"
  by (simp add: vscode_health_check_def check_code_command_eq check_vscode_api_eq exec
        console_print_def io_return_def available_def probe_calls_def)

lemma vscode_get_context_eq:
  "vscode_get_context env =
     (if \<not> available env then unavailable_run env
      else
        (case requests_send env context_request of
           Raises msg \<Rightarrow>
             error_run (probe_calls env @ [HttpRequest context_request])
               (''Error getting VS Code context: '' @ msg)
         | Responds r \<Rightarrow>
             if status_code r = 200 then
               (case json_of r of
                  Inl msg \<Rightarrow>
                    error_run (probe_calls env @ [HttpRequest context_request])
                      (''Error getting VS Code context: '' @ msg)
                | Inr j \<Rightarrow>
                    after (probe_calls env @ [HttpRequest context_request])
                      (handled ''Error getting VS Code context: '' (show_context j)))
             else
               error_run (probe_calls env @ [HttpRequest context_request])
                 (''Error getting VS Code context: HTTP '' @ int_str (status_code r))))"
  by (simp add: vscode_get_context_def ensure_vscode_available_eq exec requests_call_def
        response_json_eq str_result_def except_clauses_eq display_rich_error_eq
        unavailable_run_def error_run_def handled_def
        split: http_outcome.splits sum.splits)

lemma vscode_get_selection_eq:
  "vscode_get_selection env =
     (if \<not> available env then unavailable_run env
      else
        (case requests_send env selection_request of
           Raises msg \<Rightarrow>
             error_run (probe_calls env @ [HttpRequest selection_request])
               (''Error getting selection context: '' @ msg)
         | Responds r \<Rightarrow>
             if status_code r = 200 then
               (case json_of r of
                  Inl msg \<Rightarrow>
                    error_run (probe_calls env @ [HttpRequest selection_request])
                      (''Error getting selection context: '' @ msg)
                | Inr j \<Rightarrow>
                    after (probe_calls env @ [HttpRequest selection_request])
                      (handled ''Error getting selection context: '' (show_selection env j)))
             else
               error_run (probe_calls env @ [HttpRequest selection_request])
                 (''Error getting selection context: HTTP '' @ int_str (status_code r))))"
  by (simp add: vscode_get_selection_def ensure_vscode_available_eq exec requests_call_def
        response_json_eq str_result_def except_clauses_eq display_rich_error_eq
        unavailable_run_def error_run_def handled_def
        split: http_outcome.splits sum.splits)

lemma vscode_list_files_eq:
  "vscode_list_files env pattern =
     (if \<not> available env then unavailable_run env
      else
        (case requests_send env (files_request pattern) of
           Raises msg \<Rightarrow>
             error_run (probe_calls env @ [HttpRequest (files_request pattern)])
               (''Error listing workspace files: '' @ msg)
         | Responds r \<Rightarrow>
             if status_code r = 200 then
               (case json_of r of
                  Inl msg \<Rightarrow>
                    error_run (probe_calls env @ [HttpRequest (files_request pattern)])
                      (''Error listing workspace files: '' @ msg)
                | Inr j \<Rightarrow>
                    after (probe_calls env @ [HttpRequest (files_request pattern)])
                      (handled ''Error listing workspace files: '' (show_files pattern j)))
             else
               error_run (probe_calls env @ [HttpRequest (files_request pattern)])
                 (''Error listing workspace files: HTTP '' @ int_str (status_code r))))"
  by (simp add: vscode_list_files_def ensure_vscode_available_eq exec requests_call_def
        response_json_eq str_result_def except_clauses_eq display_rich_error_eq
        unavailable_run_def error_run_def handled_def
        split: http_outcome.splits sum.splits)

lemma vscode_read_file_eq:
  "vscode_read_file env file_path start_line end_line =
     (if \<not> available env then unavailable_run env
      else
        (case get_permission env FILE_OPERATIONS (''Read file: '' @ file_path) of
           Inl msg \<Rightarrow>
             error_run
               (probe_calls env @ [GetPermission FILE_OPERATIONS (''Read file: '' @ file_path)])
               (''Error reading file '' @ file_path @ '': '' @ msg)
         | Inr granted \<Rightarrow>
             if \<not> granted then
               error_run
                 (probe_calls env @ [GetPermission FILE_OPERATIONS (''Read file: '' @ file_path)])
                 ''Permission denied for file read operation''
             else
               (case requests_send env (read_request file_path start_line end_line) of
                  Raises msg \<Rightarrow>
                    error_run
                      (probe_calls env @
                       [GetPermission FILE_OPERATIONS (''Read file: '' @ file_path),
                        HttpRequest (read_request file_path start_line end_line)])
                      (''Error reading file '' @ file_path @ '': '' @ msg)
                | Responds r \<Rightarrow>
                    if status_code r = 200 then
                      (case json_of r of
                         Inl msg \<Rightarrow>
                           error_run
                             (probe_calls env @
                              [GetPermission FILE_OPERATIONS (''Read file: '' @ file_path),
                               HttpRequest (read_request file_path start_line end_line)])
                             (''Error reading file '' @ file_path @ '': '' @ msg)
                       | Inr j \<Rightarrow>
                           after
                             (probe_calls env @
                              [GetPermission FILE_OPERATIONS (''Read file: '' @ file_path),
                               HttpRequest (read_request file_path start_line end_line)])
                             (handled (''Error reading file '' @ file_path @ '': '')
                                (show_content env file_path j)))
                    else
                      error_run
                        (probe_calls env @
                         [GetPermission FILE_OPERATIONS (''Read file: '' @ file_path),
                          HttpRequest (read_request file_path start_line end_line)])
                        (''Error reading file '' @ file_path @ '': HTTP '' @
                         int_str (status_code r)))))"
  by (simp add: vscode_read_file_def ensure_vscode_available_eq exec requests_call_def
        permission_call_def response_json_eq str_result_def except_clauses_eq
        display_rich_error_eq unavailable_run_def error_run_def handled_def
        split: http_outcome.splits sum.splits)

lemma vscode_create_file_eq:
  "vscode_create_file env filename content =
     (if \<not> available env then unavailable_run env
      else
        (case get_permission env FILE_WRITE (''Create file: '' @ filename) of
           Inl msg \<Rightarrow>
             error_run
               (probe_calls env @ [GetPermission FILE_WRITE (''Create file: '' @ filename)])
               (''Error creating file '' @ filename @ '': '' @ msg)
         | Inr granted \<Rightarrow>
             if \<not> granted then
               error_run
                 (probe_calls env @ [GetPermission FILE_WRITE (''Create file: '' @ filename)])
                 ''Permission denied for file creation''
             else
               (case requests_send env (create_request filename content) of
                  Raises msg \<Rightarrow>
                    error_run (create_calls env filename content)
                      (''Error creating file '' @ filename @ '': '' @ msg)
                | Responds r \<Rightarrow>
                    if status_code r = 200 then
                      (Inr (''Successfully created file: '' @ filename),
                       create_calls env filename content @
                       [success_panel (''Successfully created file: '' @ filename)])
                    else
                      (case json_of r of
                         Inl msg \<Rightarrow>
                           error_run (create_calls env filename content)
                             (''Error creating file '' @ filename @ '': '' @ msg)
                       | Inr j \<Rightarrow>
                           after (create_calls env filename content)
                             (handled (''Error creating file '' @ filename @ '': '')
                                (show_refusal (''Error creating file '' @ filename @ '': '') j))))))"
  by (simp add: vscode_create_file_def ensure_vscode_available_eq exec requests_call_def
        permission_call_def response_json_eq str_result_def except_clauses_eq
        display_rich_error_eq display_rich_success_eq unavailable_run_def error_run_def
        handled_def optional_get_eq show_code_eq create_calls_def
        split: http_outcome.splits sum.splits)

lemma vscode_edit_file_eq:
  "vscode_edit_file env filename old_text new_text =
     (if \<not> available env then unavailable_run env
      else
        (case get_permission env FILE_WRITE (''Edit file: '' @ filename) of
           Inl msg \<Rightarrow>
             error_run
               (probe_calls env @ [GetPermission FILE_WRITE (''Edit file: '' @ filename)])
               (''Error editing file '' @ filename @ '': '' @ msg)
         | Inr granted \<Rightarrow>
             if \<not> granted then
               error_run
                 (probe_calls env @ [GetPermission FILE_WRITE (''Edit file: '' @ filename)])
                 ''Permission denied for file edit operation''
             else
               (case requests_send env (edit_request filename old_text new_text) of
                  Raises msg \<Rightarrow>
                    error_run (edit_calls env filename old_text new_text)
                      (''Error editing file '' @ filename @ '': '' @ msg)
                | Responds r \<Rightarrow>
                    if status_code r = 200 then
                      (Inr (''Successfully edited file: '' @ filename),
                       edit_calls env filename old_text new_text @
                       [success_panel (''Successfully edited file: '' @ filename)])
                    else
                      (case json_of r of
                         Inl msg \<Rightarrow>
                           error_run (edit_calls env filename old_text new_text)
                             (''Error editing file '' @ filename @ '': '' @ msg)
                       | Inr j \<Rightarrow>
                           after (edit_calls env filename old_text new_text)
                             (handled (''Error editing file '' @ filename @ '': '')
                                (show_refusal (''Error editing file '' @ filename @ '': '') j))))))"
  by (simp add: vscode_edit_file_def ensure_vscode_available_eq exec requests_call_def
        permission_call_def response_json_eq str_result_def except_clauses_eq
        display_rich_error_eq display_rich_success_eq unavailable_run_def error_run_def
        handled_def optional_get_eq console_print_def edit_calls_def
        split: http_outcome.splits sum.splits)

section \<open>The display blocks\<close>

text \<open>Rules for a property that every call of a run has.\<close>

lemma all_bind:
  "list_all P (snd m) \<Longrightarrow> (\<And>x. fst m = Inr x \<Longrightarrow> list_all P (snd (f x))) \<Longrightarrow>
   list_all P (snd (io_bind m f))"
  by (simp add: snd_io_bind split: sum.splits)

lemma all_catch:
  "list_all P (snd m) \<Longrightarrow> (\<And>e. fst m = Inl e \<Longrightarrow> list_all P (snd (h e))) \<Longrightarrow>
   list_all P (snd (io_catch m h))"
  by (simp add: snd_io_catch split: sum.splits)

lemma all_if:
  "(c \<Longrightarrow> list_all P (snd a)) \<Longrightarrow> (\<not> c \<Longrightarrow> list_all P (snd b)) \<Longrightarrow>
   list_all P (snd (if c then a else b))"
  by simp

lemma all_pure:
  "list_all P (snd (io_return x))"
  "list_all P (snd (io_raise e))"
  "list_all P (snd (io_lift r))"
  "list_all P (snd (response_json resp))"
  by (simp_all add: io_return_def io_raise_def io_lift_def response_json_def)

lemma all_print: "P (ConsolePrint p) \<Longrightarrow> list_all P (snd (console_print p))"
  by (simp add: console_print_def)

lemma all_error: "P (error_panel msg) \<Longrightarrow> list_all P (snd (display_rich_error msg))"
  by (simp add: display_rich_error_eq)

lemma all_success: "P (success_panel msg) \<Longrightarrow> list_all P (snd (display_rich_success msg))"
  by (simp add: display_rich_success_eq)

lemma all_except:
  "(\<And>msg. P (error_panel msg)) \<Longrightarrow> list_all P (snd (except_clauses prefix e))"
  by (simp add: except_clauses_eq split: exn.splits)

lemma all_requests: "P (HttpRequest r) \<Longrightarrow> list_all P (snd (requests_call env r))"
  by (simp add: requests_call_def split: http_outcome.splits)

lemma all_permission: "P (GetPermission ty w) \<Longrightarrow> list_all P (snd (permission_call env ty w))"
  by (simp add: permission_call_def)

lemma all_probe:
  "P (SubprocessRun [''code'', ''--version''] 5) \<Longrightarrow> P (HttpRequest health_request) \<Longrightarrow>
   P (SocketConnect ''localhost'' 8090 2) \<Longrightarrow> list_all P (probe_calls env)"
  by (simp add: probe_calls_def split: http_outcome.splits)

lemmas all_rules =
  all_bind all_catch all_if all_pure all_print all_error all_success all_except all_requests
  all_permission

lemma is_console_panels [simp]: "is_console (error_panel msg)" "is_console (success_panel msg)"
  by (simp_all add: error_panel_def success_panel_def)

text \<open>The blocks write to the console and call nothing else.\<close>

lemma show_context_console: "list_all is_console (snd (show_context j))"
  unfolding show_context_def by (intro all_rules) simp_all

lemma show_selection_console: "list_all is_console (snd (show_selection env j))"
  unfolding show_selection_def show_selected_def show_context_lines_def
  by (intro all_rules) simp_all

lemma show_files_console: "list_all is_console (snd (show_files pattern j))"
  unfolding show_files_def by (intro all_rules) simp_all

lemma show_content_console: "list_all is_console (snd (show_content env file_path j))"
  unfolding show_content_def show_code_def by (intro all_rules) simp_all

lemma show_refusal_console: "list_all is_console (snd (show_refusal prefix j))"
  unfolding show_refusal_def by (intro all_rules) simp_all

lemma handled_console:
  "list_all is_console (snd m) \<Longrightarrow> list_all is_console (snd (handled prefix m))"
  by (simp add: handled_eq error_run_def split: sum.splits)

text \<open>A block that returns has printed.\<close>

lemma io_bind_lift: 
  "io_bind (io_lift r) f = (case r of Inl e \<Rightarrow> (Inl e, []) | Inr x \<Rightarrow> f x)"
  by (simp add: io_lift_def io_bind_def split: sum.splits)

lemma show_context_eq:
  "show_context j =
     (case context_info_of j of
        Inl e \<Rightarrow> (Inl e, [])
      | Inr s \<Rightarrow>
          (Inr s,
           [ConsolePrint (Panel (Renderable (JStr s)) ''[cyan]VS Code Context[/cyan]'' ''cyan'')]))"
  by (simp add: show_context_def io_bind_lift console_print_def io_return_def exec
        split: sum.splits)

lemma show_content_eq:
  "show_content env file_path j =
     (case py_get j ''content'' (JStr ''No content'') of
        Inl e \<Rightarrow> (Inl e, [])
      | Inr content \<Rightarrow>
          (Inr (''File content for '' @ file_path @ '' displayed above''),
           [code_panel env content (file_ext_of file_path)
              (''[green]'' @ file_path @ ''[/green]'') ''green'']))"
  by (simp add: show_content_def io_bind_lift show_code_eq io_return_def exec split: sum.splits)

lemma show_refusal_eq:
  "show_refusal prefix j =
     (case py_get j ''error'' (JStr ''Unknown error'') of
        Inl e \<Rightarrow> (Inl e, [])
      | Inr err \<Rightarrow> error_run [] (prefix @ py_str err))"
  by (simp add: show_refusal_def io_bind_lift display_rich_error_eq error_run_def
        split: sum.splits)

lemma show_files_eq:
  "show_files pattern j =
     (case py_get j ''files'' (JArr []) of
        Inl e \<Rightarrow> (Inl e, [])
      | Inr files \<Rightarrow>
          (case py_get j ''total'' (JInt 0) of
             Inl e \<Rightarrow> (Inl e, [])
           | Inr total_found \<Rightarrow>
               if py_eq_int total_found 0 then
                 error_run [] (''No files found matching pattern '' @ quoted pattern)
               else
                 (case files_info_of pattern files total_found of
                    Inl e \<Rightarrow> (Inl e, [])
                  | Inr files_info \<Rightarrow>
                      (Inr (''Found '' @ py_str total_found @ '' files matching pattern '' @
                            quoted pattern @ '' (displayed in panel above)''),
                       [ConsolePrint
                          (Panel (Renderable (JStr files_info))
                             ''[cyan]Workspace Files[/cyan]'' ''cyan'')]))))"
  by (simp add: show_files_def io_bind_lift display_rich_error_eq error_run_def
        console_print_def io_return_def exec split: sum.splits)



lemma show_selection_prints:
  "fst (show_selection env j) = Inr s \<Longrightarrow> snd (show_selection env j) \<noteq> []"
  unfolding show_selection_def
  by (auto simp: io_bind_lift fst_io_bind snd_io_bind display_rich_error_eq console_print_def
      split: sum.splits if_splits)




lemma not_error_selected [simp]: "\<not> is_error_panel (selected_panel env t l)"
  by (simp add: selected_panel_def split: sum.splits)



lemma numbered_length [simp]: "length (numbered i xs) = length xs"
  by (induction xs arbitrary: i) simp_all


section \<open>The calls of a run\<close>

lemma all_console:
  "list_all is_console t \<Longrightarrow> (\<And>p. P (ConsolePrint p)) \<Longrightarrow> list_all P t"
  by (induction t) (auto elim: is_console.elims)

lemma all_ensure:
  "P (SubprocessRun [''code'', ''--version''] 5) \<Longrightarrow> P (HttpRequest health_request) \<Longrightarrow>
   P (SocketConnect ''localhost'' 8090 2) \<Longrightarrow> list_all P (snd (ensure_vscode_available env))"
  by (simp add: ensure_vscode_available_eq all_probe)

lemma all_checks:
  "P (SubprocessRun [''code'', ''--version''] 5) \<Longrightarrow> P (HttpRequest health_request) \<Longrightarrow>
   P (SocketConnect ''localhost'' 8090 2) \<Longrightarrow>
   list_all P (snd (check_code_command env)) \<and> list_all P (snd (check_vscode_api env))"
  by (simp add: check_code_command_eq check_vscode_api_eq split: http_outcome.splits)

lemma all_show_code:
  "(\<And>p. P (ConsolePrint p)) \<Longrightarrow> list_all P (snd (show_code env code lexer title border_style))"
  by (simp add: show_code_eq code_panel_def)

lemma all_optional: "P (HttpRequest r) \<Longrightarrow> list_all P (snd (optional_get env r))"
  by (simp add: optional_get_eq)

lemma run_tool_calls:
  assumes console: "\<And>p. P (ConsolePrint p)"
    and perm: "\<And>ty what. P (GetPermission ty what)"
    and probe: "P (SubprocessRun [''code'', ''--version''] 5)" "P (HttpRequest health_request)"
      "P (SocketConnect ''localhost'' 8090 2)"
    and opt: "\<And>r. optional_request call = Some r \<Longrightarrow> P (HttpRequest r)"
    and main: "\<And>r. main_request call = Some r \<Longrightarrow> P (HttpRequest r)"
  shows "list_all P (snd (run_tool env call))"
proof -
  note blocks = all_console [OF show_context_console] all_console [OF show_selection_console]
    all_console [OF show_files_console] all_console [OF show_content_console]
    all_console [OF show_refusal_console]
  have panels: "\<And>msg. P (error_panel msg)" "\<And>msg. P (success_panel msg)"
    by (simp_all add: error_panel_def success_panel_def console)
  note rules = all_rules all_ensure [OF probe] blocks console perm panels
  show ?thesis
  proof (cases call)
    case HealthCheck
    then show ?thesis
      using all_checks [OF probe, of env]
      by (auto simp: vscode_health_check_def intro!: all_rules console)
  next
    case GetContext
    with main have "P (HttpRequest context_request)" by simp
    with GetContext show ?thesis
      by (simp add: vscode_get_context_def) (intro rules)
  next
    case GetSelection
    with main have "P (HttpRequest selection_request)" by simp
    with GetSelection show ?thesis
      by (simp add: vscode_get_selection_def) (intro rules)
  next
    case (ListFiles pattern)
    with main have "P (HttpRequest (files_request pattern))" by simp
    with ListFiles show ?thesis
      by (simp add: vscode_list_files_def) (intro rules)
  next
    case (ReadFile file_path start_line end_line)
    with main have "P (HttpRequest (read_request file_path start_line end_line))" by simp
    with ReadFile show ?thesis
      by (simp add: vscode_read_file_def) (intro rules)
  next
    case (CreateFile filename content)
    with main opt have "P (HttpRequest (create_request filename content))"
      "P (HttpRequest (preview_request filename content))" by simp_all
    with CreateFile show ?thesis
      by (simp add: vscode_create_file_def) (intro rules all_show_code all_optional)
  next
    case (EditFile filename old_text new_text)
    with main opt have "P (HttpRequest (edit_request filename old_text new_text))"
      "P (HttpRequest (diff_request filename old_text new_text))" by simp_all
    with EditFile show ?thesis
      by (simp add: vscode_edit_file_def) (intro rules all_optional)
  qed
qed

text \<open>The sample in which everything works.\<close>

lemma available_env_up [simp]: "available (env_up j)"
  by (simp add: available_def code_available_def api_available_def env_up_def)

lemma probe_env_up [simp]:
  "probe_calls (env_up j) = [SubprocessRun [''code'', ''--version''] 5, HttpRequest health_request]"
  by (simp add: probe_calls_def env_up_def)

lemma env_up_answers [simp]:
  "requests_send (env_up j) req = Responds (Response 200 (Inr j))"
  "get_permission (env_up j) ty what = Inr True"
  "syntax_fails (env_up j) code lexer = False"
  by (simp_all add: env_up_def)

lemma create_run_env_up:
  "vscode_create_file (env_up (JObj [])) ''a.txt'' ''x'' =
     (Inr ''Successfully created file: a.txt'',
      create_calls (env_up (JObj [])) ''a.txt'' ''x'' @ [success_panel ''Successfully created file: a.txt''])"
  by (simp add: vscode_create_file_eq)


lemma endpoint_urls:
  "url health_request = VSCODE_HTTP_URL @ ''/health''"
  "url context_request = VSCODE_HTTP_URL @ ''/context''"
  "url selection_request = VSCODE_HTTP_URL @ ''/selection-context''"
  "url (files_request pattern) = VSCODE_HTTP_URL @ ''/workspace/files''"
  "url (read_request file_path start_line end_line) = VSCODE_HTTP_URL @ ''/file/read''"
  "url (create_request filename content) = VSCODE_HTTP_URL @ ''/file/create''"
  "url (edit_request filename old_text new_text) = VSCODE_HTTP_URL @ ''/file/edit''"
  "url (preview_request filename content) = VSCODE_HTTP_URL @ ''/preview''"
  "url (diff_request filename old_text new_text) = VSCODE_HTTP_URL @ ''/diff''"
  by (simp_all add: health_request_def context_request_def selection_request_def
      files_request_def read_request_def create_request_def edit_request_def
      preview_request_def diff_request_def)

lemma contacted:
  "HttpRequest health_request \<in> set (snd (run_tool (env_up (JObj [])) HealthCheck))"
  "HttpRequest context_request \<in> set (snd (run_tool (env_up (JObj [])) GetContext))"
  "HttpRequest selection_request \<in> set (snd (run_tool (env_up (JObj [])) GetSelection))"
  "HttpRequest (files_request ''*'') \<in> set (snd (run_tool (env_up (JObj [])) (ListFiles ''*'')))"
  "HttpRequest (read_request ''a.txt'' 1 None) \<in>
     set (snd (run_tool (env_up (JObj [])) (ReadFile ''a.txt'' 1 None)))"
  "HttpRequest (create_request ''a.txt'' ''x'') \<in>
     set (snd (run_tool (env_up (JObj [])) (CreateFile ''a.txt'' ''x'')))"
  "HttpRequest (edit_request ''a.txt'' ''x'' ''y'') \<in>
     set (snd (run_tool (env_up (JObj [])) (EditFile ''a.txt'' ''x'' ''y'')))"
  "HttpRequest (preview_request ''a.txt'' ''x'') \<in>
     set (snd (run_tool (env_up (JObj [])) (CreateFile ''a.txt'' ''x'')))"
  "HttpRequest (diff_request ''a.txt'' ''x'' ''y'') \<in>
     set (snd (run_tool (env_up (JObj [])) (EditFile ''a.txt'' ''x'' ''y'')))"
  by (simp_all add: vscode_health_check_eq vscode_get_context_eq vscode_get_selection_eq
      vscode_list_files_eq vscode_read_file_eq vscode_create_file_eq vscode_edit_file_eq
      create_calls_def edit_calls_def)


lemma contactI:
  "HttpRequest r \<in> set (snd (run_tool env' call')) \<Longrightarrow> url r = u \<Longrightarrow>
   \<exists>env' call' r. HttpRequest r \<in> set (snd (run_tool env' call')) \<and> url r = u"
  by blast

lemma endpoint_known:
  assumes "optional_request call = Some r \<or> main_request call = Some r \<or> r = health_request"
  shows "\<exists>p \<in> set endpoints. url r = VSCODE_HTTP_URL @ p"
  using assms by (cases call) (auto simp: endpoint_urls endpoints_def)

lemma probe_requests [simp]: "HttpRequest r \<in> set (probe_calls env) \<longleftrightarrow> r = health_request"
  by (auto simp: probe_calls_def split: http_outcome.splits)

lemma probe_no_permission [simp]: "GetPermission ty what \<notin> set (probe_calls env)"
  by (auto simp: probe_calls_def split: http_outcome.splits)



lemma panels_not_calls [simp]:
  "error_panel msg \<noteq> HttpRequest r" "error_panel msg \<noteq> GetPermission ty what"
  "success_panel msg \<noteq> HttpRequest r" "success_panel msg \<noteq> GetPermission ty what"
  "HttpRequest r \<noteq> error_panel msg" "GetPermission ty what \<noteq> error_panel msg"
  "HttpRequest r \<noteq> success_panel msg" "GetPermission ty what \<noteq> success_panel msg"
  by (simp_all add: error_panel_def success_panel_def)

lemma snd_error_run [simp]: "snd (error_run t msg) = t @ [error_panel msg]"
  by (simp add: error_run_def)

lemma fst_error_run [simp]: "fst (error_run t msg) = Inr msg"
  by (simp add: error_run_def)

lemma snd_unavailable_run [simp]:
  "snd (unavailable_run env) = probe_calls env @ [error_panel (unavailable_msg env)]"
  by (simp add: unavailable_run_def)

lemma fst_unavailable_run [simp]: "fst (unavailable_run env) = Inr (unavailable_msg env)"
  by (simp add: unavailable_run_def)

lemmas handled_blocks_console =
  handled_console [OF show_context_console] handled_console [OF show_selection_console]
  handled_console [OF show_files_console] handled_console [OF show_content_console]
  handled_console [OF show_refusal_console]

lemma requests_differ [simp]:
  "health_request \<noteq> create_request f c" "health_request \<noteq> preview_request f c"
  "health_request \<noteq> edit_request f a b" "health_request \<noteq> diff_request f a b"
  "create_request f c \<noteq> health_request" "preview_request f c \<noteq> health_request"
  "edit_request f a b \<noteq> health_request" "diff_request f a b \<noteq> health_request"
  "preview_request f c \<noteq> create_request f' c'" "create_request f c \<noteq> preview_request f' c'"
  "diff_request f a b \<noteq> edit_request f' a' b'" "edit_request f a b \<noteq> diff_request f' a' b'"
  by (simp_all add: health_request_def create_request_def preview_request_def edit_request_def
      diff_request_def)









section \<open>The order of the calls\<close>

lemma probe_not_console [simp]: "filter (\<lambda>e. \<not> is_console e) (probe_calls env) = probe_calls env"
  by (simp add: probe_calls_def split: http_outcome.splits)

lemma probe_console [simp]: "filter is_console (probe_calls env) = []"
  by (simp add: probe_calls_def split: http_outcome.splits)

lemma effects_pair [simp]: "effects (a, t) = filter (\<lambda>e. \<not> is_console e) t"
  by (simp add: effects_def)

lemma effects_after [simp]: "effects (after t m) = filter (\<lambda>e. \<not> is_console e) t @ effects m"
  by (simp add: effects_def)

lemma effects_error_run [simp]: "effects (error_run t msg) = filter (\<lambda>e. \<not> is_console e) t"
  by (simp add: effects_def)

lemma effects_unavailable_run [simp]: "effects (unavailable_run env) = probe_calls env"
  by (simp add: effects_def)

lemma effects_console: "list_all is_console (snd m) \<Longrightarrow> effects m = []"
  by (simp add: effects_def list_all_iff filter_empty_conv)

lemma filter_console_all: "list_all is_console t \<Longrightarrow> filter is_console t = t"
  by (simp add: list_all_iff)

lemmas effects_blocks [simp] =
  effects_console [OF handled_blocks_console(1)] effects_console [OF handled_blocks_console(2)]
  effects_console [OF handled_blocks_console(3)] effects_console [OF handled_blocks_console(4)]
  effects_console [OF handled_blocks_console(5)]

lemma is_console_code_panel [simp]: "is_console (code_panel env code lexer title border_style)"
  by (simp add: code_panel_def)


lemma handled_prints:
  "(\<And>s. fst m = Inr s \<Longrightarrow> snd m \<noteq> []) \<Longrightarrow> snd (handled prefix m) \<noteq> []"
  by (cases "fst m") (simp_all add: handled_eq)

lemma show_context_prints: "fst (show_context j) = Inr s \<Longrightarrow> snd (show_context j) \<noteq> []"
  by (auto simp: show_context_eq split: sum.splits)

lemma show_files_prints: "fst (show_files pattern j) = Inr s \<Longrightarrow> snd (show_files pattern j) \<noteq> []"
  by (auto simp: show_files_eq split: sum.splits if_splits)

lemma show_content_prints:
  "fst (show_content env file_path j) = Inr s \<Longrightarrow> snd (show_content env file_path j) \<noteq> []"
  by (auto simp: show_content_eq split: sum.splits)

lemma show_refusal_prints: "fst (show_refusal prefix j) = Inr s \<Longrightarrow> snd (show_refusal prefix j) \<noteq> []"
  by (auto simp: show_refusal_eq split: sum.splits)

lemmas handled_blocks_print [simp] =
  handled_prints [of "show_context j" for j, OF show_context_prints]
  handled_prints [of "show_selection env j" for env j, OF show_selection_prints]
  handled_prints [of "show_files pattern j" for pattern j, OF show_files_prints]
  handled_prints [of "show_content env file_path j" for env file_path j, OF show_content_prints]
  handled_prints [of "show_refusal prefix j" for prefix j, OF show_refusal_prints]

lemma last_console: "t \<noteq> [] \<Longrightarrow> list_all is_console t \<Longrightarrow> is_console (last t)"
  by (simp add: list_all_iff)

lemmas handled_blocks_last [simp] =
  last_console [OF handled_blocks_print(1) handled_blocks_console(1)]
  last_console [OF handled_blocks_print(2) handled_blocks_console(2)]
  last_console [OF handled_blocks_print(3) handled_blocks_console(3)]
  last_console [OF handled_blocks_print(4) handled_blocks_console(4)]
  last_console [OF handled_blocks_print(5) handled_blocks_console(5)]

lemmas handled_blocks_filter [simp] =
  filter_console_all [OF handled_blocks_console(1)]
  filter_console_all [OF handled_blocks_console(2)]
  filter_console_all [OF handled_blocks_console(3)]
  filter_console_all [OF handled_blocks_console(4)]
  filter_console_all [OF handled_blocks_console(5)]



section \<open>What a run returns\<close>












lemma probe_no_error [simp]: "\<not> list_ex is_error_panel (probe_calls env)"
  by (simp add: probe_calls_def split: http_outcome.splits)

lemma not_error_success [simp]: "\<not> is_error_panel (success_panel msg)"
  by (simp add: success_panel_def)

lemma not_error_code [simp]:
  "title \<noteq> ''[red]VS Code Error[/red]'' \<Longrightarrow>
   \<not> is_error_panel (code_panel env code lexer title border_style)"
  by (simp add: code_panel_def)


lemma returns_success_after:
  "call \<noteq> HealthCheck \<Longrightarrow> fst m = Inr s \<Longrightarrow> \<not> list_ex is_error_panel t \<Longrightarrow>
   \<not> list_ex is_error_panel (snd m) \<Longrightarrow> returns_success call (after t m)"
  by (simp add: returns_success_def)

lemma handled_returned: "fst m = Inr s \<Longrightarrow> handled prefix m = m"
  by (simp add: handled_eq)


section \<open>Properties of the tool wrappers\<close>

subsection \<open>Availability\<close>

text \<open>
  Claim C9. Neither check raises: each returns a boolean. \<^verbatim>\<open>check_vscode_availability\<close>
  returns \<^verbatim>\<open>(True, message)\<close> exactly when both checks return \<^verbatim>\<open>True\<close>, and
  \<^verbatim>\<open>ensure_vscode_available\<close> raises \<^verbatim>\<open>VSCodeAvailabilityError\<close> exactly when one of them
  returns \<^verbatim>\<open>False\<close>; the message of the exception tells the three cases apart (both
  failed, the command failed, the API failed), since the three messages differ.
\<close>

theorem availability_checks:
  "(\<exists>code api.
     fst (check_code_command env) = Inr code \<and>
     fst (check_vscode_api env) = Inr api \<and>
     (\<exists>message. fst (check_vscode_availability env) = Inr (code \<and> api, message)) \<and>
     fst (ensure_vscode_available env) =
       (if code \<and> api then Inr ()
        else Inl (VSCodeAvailabilityError
          (if \<not> code \<and> \<not> api then
             cross_mark @ '' VS Code command not found and API not accessible on localhost:8090''
           else if \<not> code then
             cross_mark @ '' VS Code command not found (install VS Code and ensure 'code' is in PATH)''
           else cross_mark @ '' VS Code extension API not accessible on localhost:8090'')))) \<and>
   distinct
     [cross_mark @ '' VS Code command not found and API not accessible on localhost:8090'',
      cross_mark @ '' VS Code command not found (install VS Code and ensure 'code' is in PATH)'',
      cross_mark @ '' VS Code extension API not accessible on localhost:8090'']"
  by (simp add: check_code_command_eq check_vscode_api_eq check_vscode_availability_eq
        ensure_vscode_available_eq available_def unavailable_msg_def)

lemma env_down_code: "fst (check_code_command env_down) = Inr False"
  by (simp add: check_code_command_eq code_available_def env_down_def)

lemma env_down_api: "fst (check_vscode_api env_down) = Inr False"
  by (simp add: check_vscode_api_eq api_available_def env_down_def)

theorem availability_checks_witness:
  "fst (check_code_command env_down) = Inr False \<and>
   fst (check_vscode_api env_down) = Inr False \<and>
   fst (ensure_vscode_available env_down) =
     Inl (VSCodeAvailabilityError
       (cross_mark @ '' VS Code command not found and API not accessible on localhost:8090''))"
  using availability_checks [of env_down] by (auto simp: env_down_code env_down_api)

subsection \<open>Timeouts\<close>

text \<open>
  Claim C6. In every run of every tool, each call that leaves the process (the child
  process, each HTTP request, the socket probe) is given a timeout, and the timeout is
  one of the constants 2, 3, 5 and 10 seconds, so between 2 and 10 inclusive. The calls
  are made one after the other: each has returned or raised before the next is made.
\<close>

theorem timeouts_fixed:
  "\<forall>e \<in> set (snd (run_tool env call)). \<forall>t. call_timeout e = Some t \<longrightarrow>
     t \<in> {2, 3, 5, 10} \<and> 2 \<le> t \<and> t \<le> 10"
proof -
  have "list_all (\<lambda>e. \<forall>t. call_timeout e = Some t \<longrightarrow> t \<in> {2, 3, 5, 10} \<and> 2 \<le> t \<and> t \<le> 10)
          (snd (run_tool env call))"
  proof (rule run_tool_calls)
    fix r assume "optional_request call = Some r"
    then show "\<forall>t. call_timeout (HttpRequest r) = Some t \<longrightarrow> t \<in> {2, 3, 5, 10} \<and> 2 \<le> t \<and> t \<le> 10"
      by (cases call) (auto simp: preview_request_def diff_request_def)
  next
    fix r assume "main_request call = Some r"
    then show "\<forall>t. call_timeout (HttpRequest r) = Some t \<longrightarrow> t \<in> {2, 3, 5, 10} \<and> 2 \<le> t \<and> t \<le> 10"
      by (cases call)
         (auto simp: context_request_def selection_request_def files_request_def
            read_request_def create_request_def edit_request_def)
  qed (simp_all add: health_request_def)
  then show ?thesis by (simp add: list_all_iff)
qed


theorem timeouts_fixed_witness:
  "HttpRequest (create_request ''a.txt'' ''x'') \<in>
     set (snd (run_tool (env_up (JObj [])) (CreateFile ''a.txt'' ''x''))) \<and>
   call_timeout (HttpRequest (create_request ''a.txt'' ''x'')) = Some 10 \<and>
   (10::nat) \<in> {2, 3, 5, 10} \<and> (2::nat) \<le> 10 \<and> (10::nat) \<le> 10"
proof -
  have m: "HttpRequest (create_request ''a.txt'' ''x'') \<in>
      set (snd (run_tool (env_up (JObj [])) (CreateFile ''a.txt'' ''x'')))"
    by (simp add: create_run_env_up create_calls_def)
  have t: "call_timeout (HttpRequest (create_request ''a.txt'' ''x'')) = Some 10"
    by (simp add: create_request_def)
  from timeouts_fixed [of "env_up (JObj [])" "CreateFile ''a.txt'' ''x''"] m
  have "\<forall>t. call_timeout (HttpRequest (create_request ''a.txt'' ''x'')) = Some t \<longrightarrow>
          t \<in> {2, 3, 5, 10} \<and> 2 \<le> t \<and> t \<le> 10"
    by (rule bspec)
  with t have "(10::nat) \<in> {2, 3, 5, 10} \<and> (2::nat) \<le> 10 \<and> (10::nat) \<le> 10"
    by blast
  with m t show ?thesis by blast
qed

subsection \<open>Endpoints\<close>

text \<open>
  Claim C7. Every HTTP request of every run of every tool goes to the base URL
  \<^verbatim>\<open>http://localhost:8090\<close> followed by one of the nine paths \<^verbatim>\<open>/health\<close>, \<^verbatim>\<open>/context\<close>,
  \<^verbatim>\<open>/selection-context\<close>, \<^verbatim>\<open>/workspace/files\<close>, \<^verbatim>\<open>/file/read\<close>, \<^verbatim>\<open>/file/create\<close>,
  \<^verbatim>\<open>/file/edit\<close>, \<^verbatim>\<open>/preview\<close> and \<^verbatim>\<open>/diff\<close>; and each of the nine is contacted in
  some run.
\<close>

theorem endpoints_contacted:
  "(\<forall>e \<in> set (snd (run_tool env call)). \<forall>r. e = HttpRequest r \<longrightarrow>
      (\<exists>p \<in> set endpoints. url r = VSCODE_HTTP_URL @ p)) \<and>
   (\<forall>p \<in> set endpoints. \<exists>env' call' r.
      HttpRequest r \<in> set (snd (run_tool env' call')) \<and> url r = VSCODE_HTTP_URL @ p)"
proof
  have "list_all (\<lambda>e. \<forall>r. e = HttpRequest r \<longrightarrow> (\<exists>p \<in> set endpoints. url r = VSCODE_HTTP_URL @ p))
          (snd (run_tool env call))"
  proof (rule run_tool_calls)
    fix r assume "optional_request call = Some r"
    then show "\<forall>r'. HttpRequest r = HttpRequest r' \<longrightarrow> (\<exists>p \<in> set endpoints. url r' = VSCODE_HTTP_URL @ p)"
      using endpoint_known [of call r] by simp
  next
    fix r assume "main_request call = Some r"
    then show "\<forall>r'. HttpRequest r = HttpRequest r' \<longrightarrow> (\<exists>p \<in> set endpoints. url r' = VSCODE_HTTP_URL @ p)"
      using endpoint_known [of call r] by simp
  next
    show "\<forall>r'. HttpRequest health_request = HttpRequest r' \<longrightarrow> (\<exists>p \<in> set endpoints. url r' = VSCODE_HTTP_URL @ p)"
      using endpoint_known [of call health_request] by simp
  qed simp_all
  then show "\<forall>e \<in> set (snd (run_tool env call)). \<forall>r. e = HttpRequest r \<longrightarrow>
      (\<exists>p \<in> set endpoints. url r = VSCODE_HTTP_URL @ p)"
    by (simp add: list_all_iff)
next
  note c = contactI [OF contacted(1) endpoint_urls(1)] contactI [OF contacted(2) endpoint_urls(2)]
    contactI [OF contacted(3) endpoint_urls(3)] contactI [OF contacted(4) endpoint_urls(4)]
    contactI [OF contacted(5) endpoint_urls(5)] contactI [OF contacted(6) endpoint_urls(6)]
    contactI [OF contacted(7) endpoint_urls(7)] contactI [OF contacted(8) endpoint_urls(8)]
    contactI [OF contacted(9) endpoint_urls(9)]
  show "\<forall>p \<in> set endpoints. \<exists>env' call' r.
      HttpRequest r \<in> set (snd (run_tool env' call')) \<and> url r = VSCODE_HTTP_URL @ p"
    unfolding endpoints_def list.set ball_simps
    by (intro conjI c TrueI)
qed


theorem endpoints_contacted_witness:
  "HttpRequest (read_request ''a.txt'' 1 None) \<in>
     set (snd (run_tool (env_up (JObj [])) (ReadFile ''a.txt'' 1 None))) \<and>
   (\<exists>p \<in> set endpoints. url (read_request ''a.txt'' 1 None) = VSCODE_HTTP_URL @ p)"
proof -
  note m = contacted(5)
  from endpoints_contacted [of "env_up (JObj [])" "ReadFile ''a.txt'' 1 None"]
  have "\<forall>e \<in> set (snd (run_tool (env_up (JObj [])) (ReadFile ''a.txt'' 1 None))).
          \<forall>r. e = HttpRequest r \<longrightarrow> (\<exists>p \<in> set endpoints. url r = VSCODE_HTTP_URL @ p)"
    by (rule conjunct1)
  from this m
  have "\<forall>r. HttpRequest (read_request ''a.txt'' 1 None) = HttpRequest r \<longrightarrow>
          (\<exists>p \<in> set endpoints. url r = VSCODE_HTTP_URL @ p)"
    by (rule bspec)
  then have "\<exists>p \<in> set endpoints. url (read_request ''a.txt'' 1 None) = VSCODE_HTTP_URL @ p"
    by blast
  with m show ?thesis by blast
qed

subsection \<open>The permission gate\<close>





subsection \<open>The optional preview and diff requests\<close>



subsection \<open>The order of probe, gate, requests and output\<close>




subsection \<open>The file listing\<close>





subsection \<open>Failures\<close>





subsection \<open>Error strings and success strings\<close>





section \<open>Properties of the command-line script\<close>

lemma main_usage_not_integers: "usage_msg \<noteq> integers_msg"
  by (simp add: usage_msg_def integers_msg_def)

lemma main_short: "length argv \<le> 1 \<Longrightarrow> main argv = [usage_msg]"
  by (simp add: main_def)










end
